theory Spec2Isabelle
  imports Main "HOL-Library.AList" "HOL-Library.Sublist"
begin

section \<open>The CI configuration of the repository and the platform that runs it\<close>

text \<open>
  The executable content of the repository excerpt is its GitHub Actions configuration:
  two composite actions (\<open>Numba cache setup\<close> and \<open>Pip install all_extras with CPU
  versions\<close>) and eleven workflows.  The configuration is embedded as data (steps, jobs,
  workflows, with every \<^verbatim>\<open>${{ }}\<close> expression as a syntax tree), and the
  platform that interprets it is embedded as functions: expression evaluation, the
  two shells the steps name, the job runner with its step conditions, the retry wrapper,
  the cache service and the concurrency groups.  The platform functions follow the
  documented behaviour of GitHub Actions; the data follows the YAML files line by line.
\<close>

subsection \<open>Strings\<close>

definition NL :: string where
  "NL = [CHR 0x0A]"

definition upper_chars :: string where
  "upper_chars = ''ABCDEFGHIJKLMNOPQRSTUVWXYZ''"

definition lower_chars :: string where
  "lower_chars = ''abcdefghijklmnopqrstuvwxyz''"

definition to_lower :: "char \<Rightarrow> char" where
  "to_lower c = (case map_of (zip upper_chars lower_chars) c of Some l \<Rightarrow> l | None \<Rightarrow> c)"

definition lower :: "string \<Rightarrow> string" where
  "lower s = map to_lower s"

fun is_sub :: "string \<Rightarrow> string \<Rightarrow> bool" where
  "is_sub p [] = (p = [])"
| "is_sub p (c # cs) = (prefix p (c # cs) \<or> is_sub p cs)"

fun strip_prefix :: "string \<Rightarrow> string \<Rightarrow> string option" where
  "strip_prefix [] s = Some s"
| "strip_prefix (p # ps) [] = None"
| "strip_prefix (p # ps) (c # cs) = (if p = c then strip_prefix ps cs else None)"

fun strip_suffix :: "string \<Rightarrow> string \<Rightarrow> string option" where
  "strip_suffix suf [] = (if suf = [] then Some [] else None)"
| "strip_suffix suf (c # cs) =
     (if c # cs = suf then Some [] else map_option (Cons c) (strip_suffix suf cs))"

definition digit_char :: "nat \<Rightarrow> char" where
  "digit_char d = (if d < 10 then ''0123456789'' ! d else CHR ''?'')"

fun show_nat :: "nat \<Rightarrow> string" where
  "show_nat n = (if n < 10 then [digit_char n] else show_nat (n div 10) @ [digit_char (n mod 10)])"

declare show_nat.simps [simp del]

definition show_int :: "int \<Rightarrow> string" where
  "show_int i = (if i < 0 then CHR ''-'' # show_nat (nat (- i)) else show_nat (nat i))"

definition digit_val :: "char \<Rightarrow> nat option" where
  "digit_val c = map_of (zip ''0123456789'' [0, 1, 2, 3, 4, 5, 6, 7, 8, 9]) c"

fun parse_nat_acc :: "nat \<Rightarrow> string \<Rightarrow> nat option" where
  "parse_nat_acc a [] = Some a"
| "parse_nat_acc a (c # cs) =
     (case digit_val c of None \<Rightarrow> None | Some d \<Rightarrow> parse_nat_acc (10 * a + d) cs)"

definition parse_nat :: "string \<Rightarrow> nat option" where
  "parse_nat s = (if s = [] then None else parse_nat_acc 0 s)"

definition parse_int :: "string \<Rightarrow> int option" where
  "parse_int s =
     (case s of
        [] \<Rightarrow> None
      | c # cs \<Rightarrow>
          if c = CHR ''-'' then map_option (\<lambda>n. - int n) (parse_nat cs)
          else map_option int (parse_nat s))"

fun split_lines_acc :: "string \<Rightarrow> string \<Rightarrow> string list" where
  "split_lines_acc cur [] = [rev cur]"
| "split_lines_acc cur (c # cs) =
     (if c = CHR 0x0A then rev cur # split_lines_acc [] cs else split_lines_acc (c # cur) cs)"

definition is_space :: "char \<Rightarrow> bool" where
  "is_space c = (c = CHR '' '' \<or> c = CHR 0x09 \<or> c = CHR 0x0A \<or> c = CHR 0x0D)"

definition trim :: "string \<Rightarrow> string" where
  "trim s = rev (dropWhile is_space (rev (dropWhile is_space s)))"

subsection \<open>Expressions\<close>

text \<open>
  The values and operators of the expression language between \<^verbatim>\<open>${{\<close> and
  \<^verbatim>\<open>}}\<close>.  Objects occur only as contexts, which the model reaches by
  context name and property path (\<open>ECtx ''inputs'' ''cache_name''\<close> is
  \<^verbatim>\<open>inputs.cache_name\<close>).  Numbers are integers: no expression of the
  configuration computes with fractions.
\<close>

datatype val = VNull | VBool bool | VNum int | VStr string | VArr "val list"

datatype expr =
    ELit val
  | ECtx string string
  | EEq expr expr
  | ENeq expr expr
  | EAnd expr expr
  | EOr expr expr
  | ENot expr
  | EContains expr expr
  | EAlways

datatype frag = Txt string | Sub expr

type_synonym template = "frag list"

fun truthy :: "val \<Rightarrow> bool" where
  "truthy VNull = False"
| "truthy (VBool b) = b"
| "truthy (VNum n) = (n \<noteq> 0)"
| "truthy (VStr s) = (s \<noteq> [])"
| "truthy (VArr xs) = True"

fun to_str :: "val \<Rightarrow> string" where
  "to_str VNull = []"
| "to_str (VBool b) = (if b then ''true'' else ''false'')"
| "to_str (VNum n) = show_int n"
| "to_str (VStr s) = s"
| "to_str (VArr xs) = ''Array''"

text \<open>Coercion to a number, \<open>None\<close> standing for NaN.\<close>

fun to_num :: "val \<Rightarrow> int option" where
  "to_num VNull = Some 0"
| "to_num (VBool b) = Some (if b then 1 else 0)"
| "to_num (VNum n) = Some n"
| "to_num (VStr s) = (if trim s = [] then Some 0 else parse_int (trim s))"
| "to_num (VArr xs) = None"

text \<open>
  Equality is loose: strings compare ignoring case, values of different types compare
  as numbers, and NaN equals nothing.
\<close>

fun loose_eq :: "val \<Rightarrow> val \<Rightarrow> bool" where
  "loose_eq (VStr a) (VStr b) = (lower a = lower b)"
| "loose_eq VNull VNull = True"
| "loose_eq (VBool a) (VBool b) = (a = b)"
| "loose_eq (VNum a) (VNum b) = (a = b)"
| "loose_eq (VArr a) (VArr b) = False"
| "loose_eq a b =
     (case (to_num a, to_num b) of (Some x, Some y) \<Rightarrow> x = y | _ \<Rightarrow> False)"

fun contains_val :: "val \<Rightarrow> val \<Rightarrow> bool" where
  "contains_val (VArr xs) item = list_ex (\<lambda>x. loose_eq x item) xs"
| "contains_val search item = is_sub (lower (to_str item)) (lower (to_str search))"

fun eval :: "(string \<Rightarrow> string \<Rightarrow> val) \<Rightarrow> expr \<Rightarrow> val" where
  "eval lk (ELit v) = v"
| "eval lk (ECtx c p) = lk c p"
| "eval lk (EEq a b) = VBool (loose_eq (eval lk a) (eval lk b))"
| "eval lk (ENeq a b) = VBool (\<not> loose_eq (eval lk a) (eval lk b))"
| "eval lk (EAnd a b) = (if truthy (eval lk a) then eval lk b else eval lk a)"
| "eval lk (EOr a b) = (if truthy (eval lk a) then eval lk a else eval lk b)"
| "eval lk (ENot a) = VBool (\<not> truthy (eval lk a))"
| "eval lk (EContains a b) = VBool (contains_val (eval lk a) (eval lk b))"
| "eval lk EAlways = VBool True"

text \<open>
  A condition that names no status function is run under an implicit
  \<^verbatim>\<open>success()\<close>; \<^verbatim>\<open>always()\<close> is the only status function the
  configuration uses.
\<close>

fun has_status_fn :: "expr \<Rightarrow> bool" where
  "has_status_fn EAlways = True"
| "has_status_fn (ELit v) = False"
| "has_status_fn (ECtx c p) = False"
| "has_status_fn (EEq a b) = (has_status_fn a \<or> has_status_fn b)"
| "has_status_fn (ENeq a b) = (has_status_fn a \<or> has_status_fn b)"
| "has_status_fn (EAnd a b) = (has_status_fn a \<or> has_status_fn b)"
| "has_status_fn (EOr a b) = (has_status_fn a \<or> has_status_fn b)"
| "has_status_fn (ENot a) = has_status_fn a"
| "has_status_fn (EContains a b) = (has_status_fn a \<or> has_status_fn b)"

fun render_frag :: "(string \<Rightarrow> string \<Rightarrow> val) \<Rightarrow> frag \<Rightarrow> string" where
  "render_frag lk (Txt s) = s"
| "render_frag lk (Sub e) = to_str (eval lk e)"

definition render :: "(string \<Rightarrow> string \<Rightarrow> val) \<Rightarrow> template \<Rightarrow> string" where
  "render lk t = concat (map (render_frag lk) t)"

subsection \<open>Shells\<close>

text \<open>
  A \<^verbatim>\<open>run\<close> step hands its command to a shell.  The model reads the two
  forms by which the configuration writes to the runner's command files, and takes
  every other command as an opaque program:
  \<^item> bash: \<^verbatim>\<open>echo "LINE" >> $GITHUB_ENV\<close> appends \<open>LINE\<close> to the environment
    file.  Inside the double quotes a backslash escapes the five special characters, the
    command substitution \<^verbatim>\<open>$(date +'%d/%m/%Y')\<close> is replaced by the date, and
    any other expansion, a quote or a line break is outside the model
    (\<open>Unsupported\<close>);
  \<^item> cmd: \<^verbatim>\<open>echo DIR>>"%GITHUB_PATH%"\<close> appends \<open>DIR\<close> to the path file.
\<close>

datatype shell = Bash | Cmd | Pwsh

datatype sh_effect = EnvLine string | PathLine string | Exec string | Unsupported

definition BS :: string where
  "BS = [CHR 0x5C]"

definition date_cmd_tail :: string where
  \<open>date_cmd_tail = ''(date +'%d/%m/%Y')''\<close>

definition dq_special :: "char \<Rightarrow> bool" where
  "dq_special c =
     (c = CHR ''$'' \<or> c = CHR 0x60 \<or> c = CHR 0x22 \<or> c = CHR 0x5C \<or> c = CHR 0x0A)"

lemma strip_prefix_length: "strip_prefix p s = Some r \<Longrightarrow> length r \<le> length s"
  by (induction p s rule: strip_prefix.induct) (auto split: if_splits)

function (sequential) sh_dquote :: "string \<Rightarrow> string \<Rightarrow> string option" where
  "sh_dquote d [] = Some []"
| "sh_dquote d (c # cs) =
     (if c = CHR 0x5C then
        (case cs of
           [] \<Rightarrow> None
         | x # xs \<Rightarrow>
             if x = CHR 0x0A then sh_dquote d xs
             else if dq_special x then map_option (Cons x) (sh_dquote d xs)
             else map_option (Cons c) (sh_dquote d cs))
      else if c = CHR ''$'' then
        (case strip_prefix date_cmd_tail cs of
           None \<Rightarrow> None
         | Some rest \<Rightarrow> map_option (append d) (sh_dquote d rest))
      else if c = CHR 0x60 \<or> c = CHR 0x22 \<or> c = CHR 0x0A then None
      else map_option (Cons c) (sh_dquote d cs))"
  by pat_completeness auto
termination
  by (relation "measure (\<lambda>(d, s). length s)") (auto dest: strip_prefix_length)

definition echo_dq :: string where
  \<open>echo_dq = ''echo "''\<close>

definition env_redirect :: string where
  \<open>env_redirect = ''" >> $GITHUB_ENV''\<close>

definition path_redirect :: string where
  \<open>path_redirect = ''>>"%GITHUB_PATH%"''\<close>

definition opaque_cmd :: "string \<Rightarrow> sh_effect" where
  "opaque_cmd cmd = (if is_sub ''GITHUB_'' cmd then Unsupported else Exec cmd)"

definition run_bash :: "string \<Rightarrow> string \<Rightarrow> sh_effect" where
  "run_bash d cmd =
     (case strip_prefix echo_dq cmd of
        None \<Rightarrow> opaque_cmd cmd
      | Some rest \<Rightarrow>
          (case strip_suffix env_redirect rest of
             None \<Rightarrow> opaque_cmd cmd
           | Some body \<Rightarrow>
               (case sh_dquote d body of None \<Rightarrow> Unsupported | Some line \<Rightarrow> EnvLine line)))"

definition cmd_special :: "char \<Rightarrow> bool" where
  \<open>cmd_special c = (c \<in> set ''%^&|<>"()!'' \<or> c = CHR 0x0A)\<close>

definition run_cmd :: "string \<Rightarrow> sh_effect" where
  "run_cmd cmd =
     (case strip_prefix ''echo '' cmd of
        None \<Rightarrow> opaque_cmd cmd
      | Some rest \<Rightarrow>
          (case strip_suffix path_redirect rest of
             None \<Rightarrow> opaque_cmd cmd
           | Some body \<Rightarrow> if list_ex cmd_special body then Unsupported else PathLine body))"

fun run_shell :: "shell \<Rightarrow> string \<Rightarrow> string \<Rightarrow> sh_effect" where
  "run_shell Bash d cmd = run_bash d cmd"
| "run_shell Cmd d cmd = run_cmd cmd"
| "run_shell Pwsh d cmd = opaque_cmd cmd"

text \<open>A line of the environment file is \<open>NAME=VALUE\<close>, split at the first equals sign.\<close>

definition split_env :: "string \<Rightarrow> (string \<times> string) option" where
  "split_env l =
     (let n = takeWhile (\<lambda>c. c \<noteq> CHR ''='') l; r = dropWhile (\<lambda>c. c \<noteq> CHR ''='') l
      in if n = [] \<or> r = [] then None else Some (n, tl r))"

subsection \<open>The runner's world and the state of a job\<close>

record date =
  day :: nat
  month :: nat
  year :: nat

definition pad2 :: "nat \<Rightarrow> string" where
  "pad2 n = (if n < 10 then CHR ''0'' # show_nat n else show_nat n)"

text \<open>The output of \<^verbatim>\<open>date +'%d/%m/%Y'\<close>.\<close>

definition fmt_date :: "date \<Rightarrow> string" where
  "fmt_date d = pad2 (day d) @ ''/'' @ pad2 (month d) @ ''/'' @ show_nat (year d)"

datatype os = Linux | Windows | MacOS

fun os_name :: "os \<Rightarrow> string" where
  "os_name Linux = ''Linux''"
| "os_name Windows = ''Windows''"
| "os_name MacOS = ''macOS''"

text \<open>
  What the platform and the programs outside the repository decide: the workspace
  directory, the date, the contexts the repository does not set (\<open>github\<close>,
  \<open>secrets\<close>, \<open>vars\<close>, \<open>steps\<close>), which attempt of which command or action fails,
  and what a program writes to the files the model tracks.
\<close>

record world =
  workspace :: string
  today :: date
  platform_ctx :: "string \<Rightarrow> string \<Rightarrow> val"
  attempt_fails :: "string \<Rightarrow> nat \<Rightarrow> bool"
  fs_effect :: "string \<Rightarrow> (string \<times> string) list \<Rightarrow> (string \<times> string) list"

datatype cache_entry = Entry (e_key: string) (e_path: string) (e_data: string)

datatype event = Ran string | Called string "(string \<times> string) list"

text \<open>
  \<open>env\<close> holds the variables exported through the environment file, \<open>path_adds\<close> the
  directories added through the path file, \<open>files\<close> the directories the caches are
  taken from and restored to, \<open>store\<close> the cache service (newest entry first), \<open>log\<close>
  the commands and actions executed, \<open>ok\<close> whether every step so far succeeded.
\<close>

record jstate =
  env :: "(string \<times> string) list"
  path_adds :: "string list"
  files :: "(string \<times> string) list"
  store :: "cache_entry list"
  log :: "event list"
  ok :: bool

record ectx =
  c_os :: os
  c_inputs :: "(string \<times> string) list"
  c_matrix :: "(string \<times> val) list"

definition opt_str :: "string option \<Rightarrow> val" where
  "opt_str x = (case x of None \<Rightarrow> VNull | Some s \<Rightarrow> VStr s)"

definition opt_val :: "val option \<Rightarrow> val" where
  "opt_val x = (case x of None \<Rightarrow> VNull | Some v \<Rightarrow> v)"

definition ctx_lookup ::
  "world \<Rightarrow> ectx \<Rightarrow> (string \<times> string) list \<Rightarrow> string \<Rightarrow> string \<Rightarrow> val" where
  "ctx_lookup w c e cn p =
     (if cn = ''inputs'' then opt_str (map_of (c_inputs c) p)
      else if cn = ''env'' then opt_str (map_of e p)
      else if cn = ''matrix'' then opt_val (map_of (c_matrix c) p)
      else if cn = ''runner'' \<and> p = ''os'' then VStr (os_name (c_os c))
      else if cn = ''github'' \<and> p = ''workspace'' then VStr (workspace w)
      else platform_ctx w cn p)"

subsection \<open>Steps and composite actions\<close>

datatype step_action =
    Run "shell option" template
  | Uses string "(string \<times> template) list"

datatype step = Step (step_name: "string option") (step_if: "expr option") (step_do: step_action)

datatype input_spec = Input (in_name: string) (in_required: bool) (in_default: "string option")

datatype action =
  Action (act_name: string) (act_inputs: "input_spec list") (act_steps: "step list")

datatype error =
    UnsupportedShell string
  | BadEnvLine string
  | BadInput string string
  | UnknownAction string
  | UnknownRunner string

text \<open>An input the caller omits takes its default; without a default it is empty.\<close>

definition input_value :: "(string \<times> string) list \<Rightarrow> input_spec \<Rightarrow> string" where
  "input_value args i =
     (case map_of args (in_name i) of
        Some v \<Rightarrow> v
      | None \<Rightarrow> (case in_default i of Some d \<Rightarrow> d | None \<Rightarrow> []))"

definition resolve_inputs ::
  "input_spec list \<Rightarrow> (string \<times> string) list \<Rightarrow> (string \<times> string) list" where
  "resolve_inputs specs args = map (\<lambda>i. (in_name i, input_value args i)) specs"

definition step_enabled :: "(string \<Rightarrow> string \<Rightarrow> val) \<Rightarrow> bool \<Rightarrow> step \<Rightarrow> bool" where
  "step_enabled lk so_far st =
     (case step_if st of
        None \<Rightarrow> so_far
      | Some e \<Rightarrow> if has_status_fn e then truthy (eval lk e) else so_far \<and> truthy (eval lk e))"

subsection \<open>Programs, the retry wrapper and the cache service\<close>

text \<open>
  An opaque program is logged, may write to the tracked files and may fail, as the
  world decides.  The retry wrapper \<^verbatim>\<open>nick-fields/retry\<close> runs its command up
  to \<open>max_attempts\<close> times and fails when every attempt failed; the time limit of an
  attempt is real time, which the world's verdict on the attempt stands for.  The
  wrapped command is taken as a program: it does not write to the command files.
\<close>

definition exec_once :: "world \<Rightarrow> string \<Rightarrow> jstate \<Rightarrow> jstate" where
  "exec_once w c s = s\<lparr>log := log s @ [Ran c], files := fs_effect w c (files s)\<rparr>"

fun retry :: "world \<Rightarrow> string \<Rightarrow> nat \<Rightarrow> nat \<Rightarrow> jstate \<Rightarrow> jstate" where
  "retry w c 0 k s = s\<lparr>ok := False\<rparr>"
| "retry w c (Suc n) k s =
     (if attempt_fails w c k then retry w c n (Suc k) (exec_once w c s) else exec_once w c s)"

definition run_retry :: "world \<Rightarrow> (string \<times> string) list \<Rightarrow> jstate \<Rightarrow> error + jstate" where
  "run_retry w args s =
     (case map_of args ''command'' of
        None \<Rightarrow> Inl (BadInput ''command'' [])
      | Some c \<Rightarrow>
          (case map_of args ''max_attempts'' of
             None \<Rightarrow> Inl (BadInput ''max_attempts'' [])
           | Some m \<Rightarrow>
               (case map_of args ''timeout_minutes'' of
                  None \<Rightarrow> Inl (BadInput ''timeout_minutes'' [])
                | Some t \<Rightarrow>
                    (case parse_nat (trim m) of
                       None \<Rightarrow> Inl (BadInput ''max_attempts'' m)
                     | Some n \<Rightarrow>
                         (case parse_nat (trim t) of
                            None \<Rightarrow> Inl (BadInput ''timeout_minutes'' t)
                          | Some mins \<Rightarrow> Inr (retry w c n 1 s))))))"

text \<open>
  The cache service keeps immutable entries under a key, for the path they were taken
  from.  A lookup takes the entry with exactly the key, else the newest entry the key
  is a prefix of, else the same for each restore key in turn.  Branch scopes, eviction
  and the validation of keys are not modelled.
\<close>

fun first_prefix :: "cache_entry list \<Rightarrow> string list \<Rightarrow> cache_entry option" where
  "first_prefix es [] = None"
| "first_prefix es (k # ks) =
     (case find (\<lambda>e. prefix k (e_key e)) es of
        Some e \<Rightarrow> Some e
      | None \<Rightarrow> first_prefix es ks)"

definition cache_lookup ::
  "cache_entry list \<Rightarrow> string \<Rightarrow> string \<Rightarrow> string list \<Rightarrow> cache_entry option" where
  "cache_lookup st path key rks =
     (let es = filter (\<lambda>e. e_path e = path) st in
      case find (\<lambda>e. e_key e = key) es of
        Some e \<Rightarrow> Some e
      | None \<Rightarrow> first_prefix es (key # rks))"

definition restore_keys_of :: "string \<Rightarrow> string list" where
  "restore_keys_of s = filter (\<lambda>l. l \<noteq> []) (map trim (split_lines_acc [] s))"

definition run_cache_restore :: "(string \<times> string) list \<Rightarrow> jstate \<Rightarrow> error + jstate" where
  "run_cache_restore args s =
     (case map_of args ''path'' of
        None \<Rightarrow> Inl (BadInput ''path'' [])
      | Some p \<Rightarrow>
          (case map_of args ''key'' of
             None \<Rightarrow> Inl (BadInput ''key'' [])
           | Some k \<Rightarrow>
               (let rks = (case map_of args ''restore-keys'' of
                             None \<Rightarrow> []
                           | Some r \<Rightarrow> restore_keys_of r)
                in case cache_lookup (store s) p k rks of
                     None \<Rightarrow> Inr s
                   | Some e \<Rightarrow> Inr (s\<lparr>files := AList.update p (e_data e) (files s)\<rparr>))))"

definition cache_save :: "cache_entry list \<Rightarrow> string \<Rightarrow> string \<Rightarrow> string \<Rightarrow> cache_entry list" where
  "cache_save st path key data =
     (if list_ex (\<lambda>e. e_path e = path \<and> e_key e = key) st then st
      else Entry key path data # st)"

definition run_cache_save :: "(string \<times> string) list \<Rightarrow> jstate \<Rightarrow> error + jstate" where
  "run_cache_save args s =
     (case map_of args ''path'' of
        None \<Rightarrow> Inl (BadInput ''path'' [])
      | Some p \<Rightarrow>
          (case map_of args ''key'' of
             None \<Rightarrow> Inl (BadInput ''key'' [])
           | Some k \<Rightarrow>
               (case map_of (files s) p of
                  None \<Rightarrow> Inr s
                | Some d \<Rightarrow> Inr (s\<lparr>store := cache_save (store s) p k d\<rparr>))))"

text \<open>Any other action of another repository is opaque, like a program.\<close>

definition run_external :: "world \<Rightarrow> string \<Rightarrow> (string \<times> string) list \<Rightarrow> jstate \<Rightarrow> jstate" where
  "run_external w u args s =
     s\<lparr>log := log s @ [Called u args], files := fs_effect w u (files s),
       ok := ok s \<and> \<not> attempt_fails w u 1\<rparr>"

subsection \<open>Running steps\<close>

definition default_shell :: "os \<Rightarrow> shell" where
  "default_shell ros = (if ros = Windows then Pwsh else Bash)"

definition apply_effect :: "world \<Rightarrow> sh_effect \<Rightarrow> string \<Rightarrow> jstate \<Rightarrow> error + jstate" where
  "apply_effect w eff cmd s =
     (case eff of
        EnvLine l \<Rightarrow>
          (case split_env l of
             None \<Rightarrow> Inl (BadEnvLine l)
           | Some (n, v) \<Rightarrow> Inr (s\<lparr>env := AList.update n v (env s)\<rparr>))
      | PathLine d \<Rightarrow> Inr (s\<lparr>path_adds := d # path_adds s\<rparr>)
      | Exec c \<Rightarrow> Inr ((exec_once w c s)\<lparr>ok := ok s \<and> \<not> attempt_fails w c 1\<rparr>)
      | Unsupported \<Rightarrow> Inl (UnsupportedShell cmd))"

definition eval_args ::
  "(string \<Rightarrow> string \<Rightarrow> val) \<Rightarrow> (string \<times> template) list \<Rightarrow> (string \<times> string) list" where
  "eval_args lk args = map (\<lambda>(k, t). (k, render lk t)) args"

text \<open>
  A step of a composite action: a shell command or an action of another repository.
  Neither composite action of the repository calls a local action.
\<close>

definition run_step :: "world \<Rightarrow> ectx \<Rightarrow> step \<Rightarrow> jstate \<Rightarrow> error + jstate" where
  "run_step w c st s =
     (let lk = ctx_lookup w c (env s) in
      case step_do st of
        Run sh t \<Rightarrow>
          (let cmd = render lk t;
               shl = (case sh of None \<Rightarrow> default_shell (c_os c) | Some x \<Rightarrow> x)
           in apply_effect w (run_shell shl (fmt_date (today w)) cmd) cmd s)
      | Uses u args \<Rightarrow>
          (if u = ''nick-fields/retry@v3'' then run_retry w (eval_args lk args) s
           else if u = ''actions/cache/restore@v4'' then run_cache_restore (eval_args lk args) s
           else if u = ''actions/cache/save@v4'' then run_cache_save (eval_args lk args) s
           else if prefix ''./'' u then Inl (UnknownAction u)
           else Inr (run_external w u (eval_args lk args) s)))"

fun run_steps :: "world \<Rightarrow> ectx \<Rightarrow> step list \<Rightarrow> jstate \<Rightarrow> error + jstate" where
  "run_steps w c [] s = Inr s"
| "run_steps w c (st # sts) s =
     (if step_enabled (ctx_lookup w c (env s)) (ok s) st then
        (case run_step w c st s of Inl e \<Rightarrow> Inl e | Inr s' \<Rightarrow> run_steps w c sts s')
      else run_steps w c sts s)"

definition run_action ::
  "world \<Rightarrow> os \<Rightarrow> action \<Rightarrow> (string \<times> string) list \<Rightarrow> jstate \<Rightarrow> error + jstate" where
  "run_action w ros a args s =
     run_steps w \<lparr>c_os = ros, c_inputs = resolve_inputs (act_inputs a) args, c_matrix = []\<rparr>
       (act_steps a) s"

subsection \<open>The composite action \<open>Numba cache setup\<close>\<close>

text \<open>
  The action that the workflows call as \<^verbatim>\<open>./.github/actions/numba_cache\<close>.
  Each step is a constant of its own, in the order of the file.
\<close>

definition cpu_features :: string where
  "cpu_features = ''+64bit +adx +aes +avx +avx2 -avx512bf16 -avx512bitalg -avx512bw -avx512cd -avx512dq -avx512er -avx512f -avx512ifma -avx512pf -avx512vbmi -avx512vbmi2 -avx512vl -avx512vnni -avx512vpopcntdq +bmi +bmi2 -cldemote -clflushopt -clwb -clzero +cmov +cx16 +cx8 -enqcmd +f16c +fma -fma4 +fsgsbase +fxsr -gfni +invpcid -lwp +lzcnt +mmx +movbe -movdir64b -movdiri -mwaitx +pclmul -pconfig -pku +popcnt -prefetchwt1 +prfchw -ptwrite -rdpid +rdrnd +rdseed +rtm +sahf -sgx -sha -shstk +sse +sse2 +sse3 +sse4.1 +sse4.2 -sse4a +ssse3 -tbm -vaes -vpclmulqdq -waitpkg -wbnoinvd -xop +xsave -xsavec +xsaveopt -xsaves''"

definition gnu_tar_dir :: string where
  "gnu_tar_dir = ''C:'' @ BS @ ''Program Files'' @ BS @ ''Git'' @ BS @ ''usr'' @ BS @ ''bin''"

definition nc_set_cache_env :: step where
  \<open>nc_set_cache_env =
     Step (Some ''Set numba cache env'') None
       (Run (Some Bash)
          [Txt ''echo "NUMBA_CACHE_DIR='', Sub (ECtx ''github'' ''workspace''),
           Txt ''/.numba_cache" >> $GITHUB_ENV''])\<close>

definition nc_set_cpu_env :: step where
  \<open>nc_set_cpu_env =
     Step (Some ''Set numba CPU env'') None
       (Run (Some Bash) [Txt ''echo "NUMBA_CPU_NAME=generic" >> $GITHUB_ENV''])\<close>

definition nc_set_cpu_features_env :: step where
  \<open>nc_set_cpu_features_env =
     Step (Some ''Set numba CPU features env'') None
       (Run (Some Bash)
          [Txt (''echo "NUMBA_CPU_FEATURES='' @ cpu_features @ ''" >> $GITHUB_ENV'')])\<close>

definition nc_set_caching_env :: step where
  \<open>nc_set_caching_env =
     Step (Some ''Set CACHING_CICD_RUNNING env'') None
       (Run (Some Bash) [Txt ''echo "CACHING_CICD_RUNNING=1" >> $GITHUB_ENV''])\<close>

definition nc_get_current_date :: step where
  \<open>nc_get_current_date =
     Step (Some ''Get Current Date'') None
       (Run (Some Bash) [Txt ''echo "CURRENT_DATE=$(date +'%d/%m/%Y')" >> $GITHUB_ENV''])\<close>

definition nc_gnu_tar :: step where
  \<open>nc_gnu_tar =
     Step (Some ''Use GNU tar instead BSD tar if Windows'')
       (Some (EEq (ECtx ''inputs'' ''runner_os'') (ELit (VStr ''Windows''))))
       (Run (Some Cmd) [Txt (''echo '' @ gnu_tar_dir @ ''>>"%GITHUB_PATH%"'')])\<close>

definition nc_restore_with :: "(string \<times> template) list" where
  "nc_restore_with =
     [(''path'', [Sub (ECtx ''github'' ''workspace''), Txt ''/.numba_cache'']),
      (''key'',
       [Txt ''numba-'', Sub (ECtx ''inputs'' ''cache_name''), Txt ''-'',
        Sub (ECtx ''inputs'' ''runner_os''), Txt ''-'',
        Sub (ECtx ''inputs'' ''python_version''), Txt ''-'',
        Sub (ECtx ''env'' ''CURRENT_DATE'')]),
      (''restore-keys'',
       [Txt ''numba-'', Sub (ECtx ''inputs'' ''cache_name''), Txt ''-'',
        Sub (ECtx ''inputs'' ''runner_os''), Txt ''-'',
        Sub (ECtx ''inputs'' ''python_version''), Txt (''-'' @ NL)])]"

definition nc_restore_cache :: step where
  "nc_restore_cache =
     Step (Some ''Restore cache'')
       (Some (EEq (ECtx ''inputs'' ''restore_cache'') (ELit (VStr ''true''))))
       (Uses ''actions/cache/restore@v4'' nc_restore_with)"

definition numba_cache :: action where
  "numba_cache =
     Action ''Numba cache setup''
       [Input ''cache_name'' True None,
        Input ''runner_os'' True None,
        Input ''python_version'' True None,
        Input ''restore_cache'' False (Some ''true'')]
       [nc_set_cache_env, nc_set_cpu_env, nc_set_cpu_features_env, nc_set_caching_env,
        nc_get_current_date, nc_gnu_tar, nc_restore_cache]"

subsection \<open>The composite action \<open>Pip install all_extras with CPU versions\<close>\<close>

definition cae_install_tensorflow :: step where
  "cae_install_tensorflow =
     Step (Some ''Install CPU TensorFlow'')
       (Some (EAnd (EEq (ECtx ''runner'' ''os'') (ELit (VStr ''Linux'')))
                   (ENeq (ECtx ''inputs'' ''python_version'') (ELit (VStr ''3.13'')))))
       (Uses ''nick-fields/retry@v3''
          [(''timeout_minutes'', [Txt ''30'']),
           (''max_attempts'', [Txt ''3'']),
           (''command'', [Txt ''python -m pip install tensorflow-cpu''])])"

definition cae_install_pytorch :: step where
  "cae_install_pytorch =
     Step (Some ''Install CPU PyTorch'')
       (Some (EEq (ECtx ''runner'' ''os'') (ELit (VStr ''Linux''))))
       (Uses ''nick-fields/retry@v3''
          [(''timeout_minutes'', [Txt ''30'']),
           (''max_attempts'', [Txt ''3'']),
           (''command'',
            [Txt ''python -m pip install torch --index-url https://download.pytorch.org/whl/cpu''])])"

definition cae_install_dependencies :: step where
  "cae_install_dependencies =
     Step (Some ''Install dependencies'') None
       (Uses ''nick-fields/retry@v3''
          [(''timeout_minutes'', [Txt ''30'']),
           (''max_attempts'', [Txt ''3'']),
           (''command'',
            [Txt ''python -m pip install .[all_extras'',
             Sub (EOr (EAnd (ENeq (ECtx ''inputs'' ''additional_extras'') (ELit (VStr [])))
                            (ELit (VStr '','')))
                      (ELit (VStr []))),
             Sub (ECtx ''inputs'' ''additional_extras''),
             Txt ('']'' @ NL)])])"

definition cpu_all_extras :: action where
  "cpu_all_extras =
     Action ''Pip install all_extras with CPU versions''
       [Input ''python_version'' False (Some ''3.12''),
        Input ''additional_extras'' False (Some [])]
       [cae_install_tensorflow, cae_install_pytorch, cae_install_dependencies]"

text \<open>The value of a declared input in a call with the arguments \<open>args\<close>.\<close>

definition arg :: "action \<Rightarrow> (string \<times> string) list \<Rightarrow> string \<Rightarrow> string" where
  "arg a args n =
     (case map_of (resolve_inputs (act_inputs a) args) n of Some v \<Rightarrow> v | None \<Rightarrow> [])"

text \<open>
  A string that stands for itself between the double quotes of bash: none of the
  special characters, except backslashes before ordinary characters (the separators of
  a Windows path).
\<close>

fun dq_literal :: "string \<Rightarrow> bool" where
  "dq_literal [] = True"
| "dq_literal (c # cs) =
     (if c = CHR 0x5C then (case cs of [] \<Rightarrow> True | x # xs \<Rightarrow> \<not> dq_special x \<and> dq_literal cs)
      else \<not> dq_special c \<and> dq_literal cs)"

subsection \<open>Jobs and workflows\<close>

text \<open>
  A workflow is its name, its concurrency block and its jobs; a job is its identifier,
  its condition, the jobs it needs, its runner label, its matrix strategy and its
  steps.  Keys that no function of the model reads are left out of the data: the
  triggers (\<open>on\<close>), \<open>permissions\<close> and \<open>environment\<close>, and of a step its \<open>id\<close> and
  the \<open>env\<close> block that some steps pass to a script or an upload.
\<close>

datatype strategy =
  Strategy (fail_fast: bool) (matrix: "(string \<times> expr list) list")
    (mx_exclude: "(string \<times> val) list list")

datatype job =
  Job (job_id: string) (job_if: "expr option") (job_needs: "string list") (runs_on: template)
    (job_strategy: "strategy option") (job_steps: "step list")

datatype concurrency = Concurrency (cc_group: template) (cancel_in_progress: bool)

datatype workflow =
  Workflow (wf_name: string) (wf_concurrency: "concurrency option") (wf_jobs: "job list")

text \<open>The workflow \<open>Periodic tests\<close>.\<close>

definition periodic_tests_check_manifest :: job where
  \<open>periodic_tests_check_manifest =
     Job ''check-manifest''
       None
       [] [Txt ''ubuntu-24.04'']
       None
       [Step (Some ''Checkout'') None
          (Uses ''actions/checkout@v4'' []),
        Step (Some ''Setup Python 3.12'') None
          (Uses ''actions/setup-python@v5''
             [(''python-version'', [Txt ''3.12''])]),
        Step (Some ''Run check-manifest'') None
          (Uses ''pre-commit/action@v3.0.1''
             [(''extra_args'', [Txt ''check-manifest --hook-stage manual''])])]\<close>

definition periodic_tests_pre_commit :: job where
  \<open>periodic_tests_pre_commit =
     Job ''pre-commit''
       None
       [] [Txt ''ubuntu-24.04'']
       None
       [Step (Some ''Checkout'') None
          (Uses ''actions/checkout@v4'' []),
        Step (Some ''Setup Python 3.12'') None
          (Uses ''actions/setup-python@v5''
             [(''python-version'', [Txt ''3.12''])]),
        Step (Some ''Run pre-commit'') None
          (Uses ''pre-commit/action@v3.0.1''
             [(''extra_args'', [Txt ''--all-files''])])]\<close>

definition periodic_tests_run_notebook_examples :: job where
  \<open>periodic_tests_run_notebook_examples =
     Job ''run-notebook-examples''
       None
       [] [Txt ''macos-14'']
       None
       [Step (Some ''Checkout'') None
          (Uses ''actions/checkout@v4'' []),
        Step (Some ''Install latest version of bash'') None
          (Run None
             [Txt (''brew install bash'' @ NL @ ''/opt/homebrew/bin/bash --version'' @ NL)]),
        Step (Some ''Setup Python 3.12'') None
          (Uses ''actions/setup-python@v5''
             [(''python-version'', [Txt ''3.12''])]),
        Step (Some ''Use numba cache to set env variables but not restore cache'') None
          (Uses ''./.github/actions/numba_cache''
             [(''cache_name'', [Txt ''run-notebook-examples'']),
              (''runner_os'', [Sub (ECtx ''runner'' ''os'')]),
              (''python_version'', [Txt ''3.12'']),
              (''restore_cache'', [Txt ''false''])]),
        Step (Some ''Install dependencies'') None
          (Uses ''nick-fields/retry@v3''
             [(''timeout_minutes'', [Txt ''30'']),
              (''max_attempts'', [Txt ''3'']),
              (''command'', [Txt ''python -m pip install .[all_extras,binder,dev]''])]),
        Step (Some ''Show dependencies'') None
          (Run None [Txt ''python -m pip list'']),
        Step (Some ''Run example notebooks'') None
          (Run (Some Bash)
             [Txt ''.github/utilities/run_examples.sh false'']),
        Step (Some ''Save new cache'') None
          (Uses ''actions/cache/save@v4''
             [(''path'', [Sub (ECtx ''github'' ''workspace''), Txt ''/.numba_cache'']),
              (''key'',
               [Txt ''numba-run-notebook-examples-'',
                Sub (ECtx ''runner'' ''os''),
                Txt ''-3.12-'',
                Sub (ECtx ''env'' ''CURRENT_DATE'')])])]\<close>

definition periodic_tests_test_core_imports :: job where
  \<open>periodic_tests_test_core_imports =
     Job ''test-core-imports''
       None
       [] [Txt ''ubuntu-24.04'']
       None
       [Step (Some ''Checkout'') None
          (Uses ''actions/checkout@v4'' []),
        Step (Some ''Setup Python 3.12'') None
          (Uses ''actions/setup-python@v5''
             [(''python-version'', [Txt ''3.12''])]),
        Step (Some ''Install aeon and dependencies'') None
          (Uses ''nick-fields/retry@v3''
             [(''timeout_minutes'', [Txt ''30'']),
              (''max_attempts'', [Txt ''3'']),
              (''command'', [Txt ''python -m pip install .''])]),
        Step (Some ''Show dependencies'') None
          (Run None [Txt ''python -m pip list'']),
        Step (Some ''Run import test'') None
          (Run None
             [Txt ''python aeon/testing/tests/test_core_imports.py''])]\<close>

definition periodic_tests_test_no_soft_deps :: job where
  \<open>periodic_tests_test_no_soft_deps =
     Job ''test-no-soft-deps''
       None
       [] [Txt ''ubuntu-24.04'']
       None
       [Step (Some ''Checkout'') None
          (Uses ''actions/checkout@v4'' []),
        Step (Some ''Setup Python 3.12'') None
          (Uses ''actions/setup-python@v5''
             [(''python-version'', [Txt ''3.12''])]),
        Step (Some ''Use numba cache to set env variables but not restore cache'') None
          (Uses ''./.github/actions/numba_cache''
             [(''cache_name'', [Txt ''test-no-soft-deps'']),
              (''runner_os'', [Sub (ECtx ''runner'' ''os'')]),
              (''python_version'', [Txt ''3.12'']),
              (''restore_cache'', [Txt ''false''])]),
        Step (Some ''Install aeon and dependencies'') None
          (Uses ''nick-fields/retry@v3''
             [(''timeout_minutes'', [Txt ''30'']),
              (''max_attempts'', [Txt ''3'']),
              (''command'', [Txt ''python -m pip install .[dev]''])]),
        Step (Some ''Show dependencies'') None
          (Run None [Txt ''python -m pip list'']),
        Step (Some ''Run tests'') None
          (Run None [Txt ''python -m pytest -n logical'']),
        Step (Some ''Save new cache'') None
          (Uses ''actions/cache/save@v4''
             [(''path'', [Sub (ECtx ''github'' ''workspace''), Txt ''/.numba_cache'']),
              (''key'',
               [Txt ''numba-test-no-soft-deps-'',
                Sub (ECtx ''runner'' ''os''),
                Txt ''-3.12-'',
                Sub (ECtx ''env'' ''CURRENT_DATE'')])])]\<close>

definition periodic_tests_pytest :: job where
  \<open>periodic_tests_pytest =
     Job ''pytest''
       None
       [] [Sub (ECtx ''matrix'' ''os'')]
       (Some (Strategy False
         [(''os'',
           [ELit (VStr ''ubuntu-24.04''),
            ELit (VStr ''macOS-14''),
            ELit (VStr ''windows-2022'')]),
          (''python-version'',
           [ELit (VStr ''3.10''),
            ELit (VStr ''3.11''),
            ELit (VStr ''3.12''),
            ELit (VStr ''3.13'')])]
         []))
       [Step (Some ''Checkout'') None
          (Uses ''actions/checkout@v4'' []),
        Step (Some ''Setup Python'') None
          (Uses ''actions/setup-python@v5''
             [(''python-version'', [Sub (ECtx ''matrix'' ''python-version'')])]),
        Step (Some ''Clear disik space'') None
          (Uses ''jlumbroso/free-disk-space@v1.3.1''
             [(''dotnet'', [Txt ''false'']),
              (''large-packages'', [Txt ''false'']),
              (''swap-storage'', [Txt ''false''])]),
        Step (Some ''Set swap space'')
          (Some (EEq (ECtx ''runner'' ''os'') (ELit (VStr ''Linux''))))
          (Uses ''pierotofy/set-swap-space@v1.0''
             [(''swap-size-gb'', [Txt ''8''])]),
        Step (Some ''Use numba cache to set env variables but not restore cache'') None
          (Uses ''./.github/actions/numba_cache''
             [(''cache_name'', [Txt ''pytest'']),
              (''runner_os'', [Sub (ECtx ''runner'' ''os'')]),
              (''python_version'', [Sub (ECtx ''matrix'' ''python-version'')]),
              (''restore_cache'', [Txt ''false''])]),
        Step (Some ''Install aeon and dependencies'') None
          (Uses ''nick-fields/retry@v3''
             [(''timeout_minutes'', [Txt ''30'']),
              (''max_attempts'', [Txt ''3'']),
              (''command'', [Txt ''python -m pip install .[all_extras,dev]''])]),
        Step (Some ''Show dependencies'') None
          (Run None [Txt ''python -m pip list'']),
        Step (Some ''Run tests'') None
          (Run None [Txt ''python -m pytest -n logical'']),
        Step (Some ''Save new cache'') None
          (Uses ''actions/cache/save@v4''
             [(''path'', [Sub (ECtx ''github'' ''workspace''), Txt ''/.numba_cache'']),
              (''key'',
               [Txt ''numba-pytest-'',
                Sub (ECtx ''runner'' ''os''),
                Txt ''-'',
                Sub (ECtx ''matrix'' ''python-version''),
                Txt ''-'',
                Sub (ECtx ''env'' ''CURRENT_DATE'')])])]\<close>

definition periodic_tests_doctests :: job where
  \<open>periodic_tests_doctests =
     Job ''doctests''
       None
       [] [Txt ''ubuntu-24.04'']
       None
       [Step (Some ''Checkout'') None
          (Uses ''actions/checkout@v4'' []),
        Step (Some ''Setup Python 3.12'') None
          (Uses ''actions/setup-python@v5''
             [(''python-version'', [Txt ''3.12''])]),
        Step (Some ''Use numba cache to set env variables but not restore cache'') None
          (Uses ''./.github/actions/numba_cache''
             [(''cache_name'', [Txt ''doctests'']),
              (''runner_os'', [Sub (ECtx ''runner'' ''os'')]),
              (''python_version'', [Txt ''3.12'']),
              (''restore_cache'', [Txt ''false''])]),
        Step (Some ''Install aeon and dependencies'') None
          (Uses ''nick-fields/retry@v3''
             [(''timeout_minutes'', [Txt ''30'']),
              (''max_attempts'', [Txt ''3'']),
              (''command'', [Txt ''python -m pip install .[all_extras,dev]''])]),
        Step (Some ''Show dependencies'') None
          (Run None [Txt ''python -m pip list'']),
        Step (Some ''Run tests'') None
          (Run None
             [Txt ''python -m pytest -n logical --doctest-only --doctest-continue-on-failure''])]\<close>

definition periodic_tests_multithreaded_estimators :: job where
  \<open>periodic_tests_multithreaded_estimators =
     Job ''multithreaded-estimators''
       None
       [] [Txt ''ubuntu-24.04'']
       None
       [Step (Some ''Checkout'') None
          (Uses ''actions/checkout@v4'' []),
        Step (Some ''Setup Python 3.12'') None
          (Uses ''actions/setup-python@v5''
             [(''python-version'', [Txt ''3.12''])]),
        Step (Some ''Use numba cache to set env variables but not restore cache'') None
          (Uses ''./.github/actions/numba_cache''
             [(''cache_name'', [Txt ''multithreaded-estimators'']),
              (''runner_os'', [Sub (ECtx ''runner'' ''os'')]),
              (''python_version'', [Txt ''3.12'']),
              (''restore_cache'', [Txt ''false''])]),
        Step (Some ''Install aeon and dependencies'') None
          (Uses ''nick-fields/retry@v3''
             [(''timeout_minutes'', [Txt ''30'']),
              (''max_attempts'', [Txt ''3'']),
              (''command'', [Txt ''python -m pip install .[all_extras,dev]''])]),
        Step (Some ''Show dependencies'') None
          (Run None [Txt ''python -m pip list'']),
        Step (Some ''Run tests'') None
          (Run None
             [Txt ''python -m pytest aeon/testing/tests/ --enablethreading true -k "check_estimator_multithreading"''])]\<close>

definition periodic_tests_codecov :: job where
  \<open>periodic_tests_codecov =
     Job ''codecov''
       None
       [] [Txt ''ubuntu-24.04'']
       None
       [Step (Some ''Checkout'') None
          (Uses ''actions/checkout@v4'' []),
        Step (Some ''Setup Python 3.12'') None
          (Uses ''actions/setup-python@v5''
             [(''python-version'', [Txt ''3.12''])]),
        Step (Some ''Disable Numba JIT'') None
          (Run None [Txt ''echo "NUMBA_DISABLE_JIT=1" >> $GITHUB_ENV'']),
        Step (Some ''Install aeon and dependencies'') None
          (Uses ''nick-fields/retry@v3''
             [(''timeout_minutes'', [Txt ''30'']),
              (''max_attempts'', [Txt ''3'']),
              (''command'', [Txt ''python -m pip install .[all_extras,unstable_extras,dev]''])]),
        Step (Some ''Show dependencies'') None
          (Run None [Txt ''python -m pip list'']),
        Step (Some ''Run tests'') None
          (Run None
             [Txt ''python -m pytest -n logical --cov=aeon --cov-report=xml --timeout 1800'']),
        Step (Some ''Upload coverage to Codecov'') None
          (Uses ''codecov/codecov-action@v5'' [])]\<close>

definition periodic_tests :: workflow where
  \<open>periodic_tests =
     Workflow ''Periodic tests''
       (Some (Concurrency
          [Sub (ECtx ''github'' ''workflow'')]
          True))
       [periodic_tests_check_manifest,
        periodic_tests_pre_commit,
        periodic_tests_run_notebook_examples,
        periodic_tests_test_core_imports,
        periodic_tests_test_no_soft_deps,
        periodic_tests_pytest,
        periodic_tests_doctests,
        periodic_tests_multithreaded_estimators,
        periodic_tests_codecov]\<close>

text \<open>The workflow \<open>Update contributors\<close>.\<close>

definition update_contributors_generate_markdown_and_commit :: job where
  \<open>update_contributors_generate_markdown_and_commit =
     Job ''generate-markdown-and-commit''
       None
       [] [Txt ''ubuntu-24.04'']
       None
       [Step None None
          (Uses ''actions/checkout@v4'' []),
        Step None None
          (Uses ''actions/setup-node@v4''
             [(''node-version'', [Txt ''18''])]),
        Step (Some ''Setup all-contributors-cli'') None
          (Run None [Txt ''npm install -g all-contributors-cli'']),
        Step (Some ''Generate CONTRIBUTORS.md'') None
          (Run None [Txt ''npx all-contributors generate'']),
        Step None None
          (Uses ''actions/create-github-app-token@v2''
             [(''app-id'', [Sub (ECtx ''vars'' ''PR_APP_ID'')]),
              (''private-key'', [Sub (ECtx ''secrets'' ''PR_APP_KEY'')])]),
        Step None None
          (Uses ''peter-evans/create-pull-request@v7''
             [(''token'', [Sub (ECtx ''steps'' ''app-token.outputs.token'')]),
              (''commit-message'', [Txt ''Automated `CONTRIBUTORS.md` update'']),
              (''branch'', [Txt ''update_contributors'']),
              (''title'', [Txt ''[MNT] Automated `CONTRIBUTORS.md` update'']),
              (''body'',
               [Txt ''Automated update to CONTRIBUTORS.md caused by an update to the `.all-contributorsrc` file.'']),
              (''labels'', [Txt ''maintenance, no changelog''])])]\<close>

definition update_contributors :: workflow where
  \<open>update_contributors =
     Workflow ''Update contributors''
       None
       [update_contributors_generate_markdown_and_commit]\<close>

text \<open>The workflow \<open>PR pytest\<close>.\<close>

definition pr_pytest_test_no_soft_deps :: job where
  \<open>pr_pytest_test_no_soft_deps =
     Job ''test-no-soft-deps''
       None
       [] [Txt ''ubuntu-24.04'']
       None
       [Step (Some ''Checkout'') None
          (Uses ''actions/checkout@v4'' []),
        Step (Some ''Setup Python 3.12'') None
          (Uses ''actions/setup-python@v5''
             [(''python-version'', [Txt ''3.12''])]),
        Step (Some ''Restore numba cache'')
          (Some (EOr
                   (ENeq (ECtx ''github'' ''event_name'') (ELit (VStr ''pull_request'')))
                   (ENot
                      (EContains
                         (ECtx ''github'' ''event.pull_request.labels.*.name'')
                         (ELit (VStr ''no numba cache''))))))
          (Uses ''./.github/actions/numba_cache''
             [(''cache_name'', [Txt ''test-no-soft-deps'']),
              (''runner_os'', [Sub (ECtx ''runner'' ''os'')]),
              (''python_version'', [Txt ''3.12''])]),
        Step (Some ''Install aeon and dependencies'') None
          (Uses ''nick-fields/retry@v3''
             [(''timeout_minutes'', [Txt ''30'']),
              (''max_attempts'', [Txt ''3'']),
              (''command'', [Txt ''python -m pip install .[dev]''])]),
        Step (Some ''Show dependencies'') None
          (Run None [Txt ''python -m pip list'']),
        Step (Some ''Run tests'') None
          (Run None [Txt ''python -m pytest -n logical''])]\<close>

definition pr_pytest_pytest :: job where
  \<open>pr_pytest_pytest =
     Job ''pytest''
       None
       [] [Sub (ECtx ''matrix'' ''os'')]
       (Some (Strategy False
         [(''os'',
           [ELit (VStr ''ubuntu-24.04''),
            ELit (VStr ''macOS-14''),
            ELit (VStr ''windows-2022'')]),
          (''python-version'',
           [ELit (VStr ''3.10''),
            ELit (VStr ''3.11''),
            ELit (VStr ''3.12''),
            ELit (VStr ''3.13'')]),
          (''pr-testing'',
           [EAnd
              (EEq (ECtx ''github'' ''event_name'') (ELit (VStr ''pull_request'')))
              (ENot
                 (EContains
                    (ECtx ''github'' ''event.pull_request.labels.*.name'')
                    (ELit (VStr ''full pytest actions''))))])]
         [[(''pr-testing'', VBool True), (''python-version'', VStr ''3.11'')]]))
       [Step (Some ''Checkout'') None
          (Uses ''actions/checkout@v4'' []),
        Step (Some ''Setup Python'') None
          (Uses ''actions/setup-python@v5''
             [(''python-version'', [Sub (ECtx ''matrix'' ''python-version'')])]),
        Step (Some ''Clear disik space'') None
          (Uses ''jlumbroso/free-disk-space@v1.3.1''
             [(''dotnet'', [Txt ''false'']),
              (''large-packages'', [Txt ''false'']),
              (''swap-storage'', [Txt ''false''])]),
        Step (Some ''Set swap space'')
          (Some (EEq (ECtx ''runner'' ''os'') (ELit (VStr ''Linux''))))
          (Uses ''pierotofy/set-swap-space@v1.0''
             [(''swap-size-gb'', [Txt ''8''])]),
        Step (Some ''Restore numba cache'')
          (Some (EOr
                   (ENeq (ECtx ''github'' ''event_name'') (ELit (VStr ''pull_request'')))
                   (ENot
                      (EContains
                         (ECtx ''github'' ''event.pull_request.labels.*.name'')
                         (ELit (VStr ''no numba cache''))))))
          (Uses ''./.github/actions/numba_cache''
             [(''cache_name'', [Txt ''pytest'']),
              (''runner_os'', [Sub (ECtx ''runner'' ''os'')]),
              (''python_version'', [Sub (ECtx ''matrix'' ''python-version'')])]),
        Step (Some ''Install aeon and dependencies'') None
          (Uses ''./.github/actions/cpu_all_extras''
             [(''python_version'', [Sub (ECtx ''matrix'' ''python-version'')]),
              (''additional_extras'', [Txt ''dev''])]),
        Step (Some ''Show dependencies'') None
          (Run None [Txt ''python -m pip list'']),
        Step (Some ''Run tests'') None
          (Run None
             [Txt ''python -m pytest -n logical --prtesting '',
              Sub (EAnd
                     (EEq (ECtx ''github'' ''event_name'') (ELit (VStr ''pull_request'')))
                     (ENot
                        (EContains
                           (ECtx ''github'' ''event.pull_request.labels.*.name'')
                           (ELit (VStr ''full pytest actions'')))))])]\<close>

definition pr_pytest_doctests :: job where
  \<open>pr_pytest_doctests =
     Job ''doctests''
       None
       [] [Txt ''ubuntu-24.04'']
       None
       [Step (Some ''Checkout'') None
          (Uses ''actions/checkout@v4'' []),
        Step (Some ''Setup Python 3.12'') None
          (Uses ''actions/setup-python@v5''
             [(''python-version'', [Txt ''3.12''])]),
        Step (Some ''Restore numba cache'')
          (Some (EOr
                   (ENeq (ECtx ''github'' ''event_name'') (ELit (VStr ''pull_request'')))
                   (ENot
                      (EContains
                         (ECtx ''github'' ''event.pull_request.labels.*.name'')
                         (ELit (VStr ''no numba cache''))))))
          (Uses ''./.github/actions/numba_cache''
             [(''cache_name'', [Txt ''doctests'']),
              (''runner_os'', [Sub (ECtx ''runner'' ''os'')]),
              (''python_version'', [Txt ''3.12''])]),
        Step (Some ''Install aeon and dependencies'') None
          (Uses ''./.github/actions/cpu_all_extras''
             [(''additional_extras'', [Txt ''dev''])]),
        Step (Some ''Show dependencies'') None
          (Run None [Txt ''python -m pip list'']),
        Step (Some ''Run tests'') None
          (Run None
             [Txt ''python -m pytest -n logical --doctest-only --doctest-continue-on-failure''])]\<close>

definition pr_pytest_multithreaded_estimators :: job where
  \<open>pr_pytest_multithreaded_estimators =
     Job ''multithreaded-estimators''
       None
       [] [Txt ''ubuntu-24.04'']
       None
       [Step (Some ''Checkout'') None
          (Uses ''actions/checkout@v4'' []),
        Step (Some ''Setup Python 3.12'') None
          (Uses ''actions/setup-python@v5''
             [(''python-version'', [Txt ''3.12''])]),
        Step (Some ''Restore numba cache'')
          (Some (EOr
                   (ENeq (ECtx ''github'' ''event_name'') (ELit (VStr ''pull_request'')))
                   (ENot
                      (EContains
                         (ECtx ''github'' ''event.pull_request.labels.*.name'')
                         (ELit (VStr ''no numba cache''))))))
          (Uses ''./.github/actions/numba_cache''
             [(''cache_name'', [Txt ''multithreaded-estimators'']),
              (''runner_os'', [Sub (ECtx ''runner'' ''os'')]),
              (''python_version'', [Txt ''3.12''])]),
        Step (Some ''Install aeon and dependencies'') None
          (Uses ''./.github/actions/cpu_all_extras''
             [(''additional_extras'', [Txt ''dev''])]),
        Step (Some ''Show dependencies'') None
          (Run None [Txt ''python -m pip list'']),
        Step (Some ''Run tests'') None
          (Run None
             [Txt ''python -m pytest aeon/testing/tests/ --enablethreading true -k "check_estimator_multithreading"''])]\<close>

definition pr_pytest_codecov :: job where
  \<open>pr_pytest_codecov =
     Job ''codecov''
       (Some (EOr
                (ENeq (ECtx ''github'' ''event_name'') (ELit (VStr ''pull_request'')))
                (EContains
                   (ECtx ''github'' ''event.pull_request.labels.*.name'')
                   (ELit (VStr ''codecov actions'')))))
       [] [Txt ''ubuntu-24.04'']
       None
       [Step (Some ''Checkout'') None
          (Uses ''actions/checkout@v4'' []),
        Step (Some ''Setup Python 3.12'') None
          (Uses ''actions/setup-python@v5''
             [(''python-version'', [Txt ''3.12''])]),
        Step (Some ''Disable Numba JIT'') None
          (Run None [Txt ''echo "NUMBA_DISABLE_JIT=1" >> $GITHUB_ENV'']),
        Step (Some ''Install aeon and dependencies'') None
          (Uses ''./.github/actions/cpu_all_extras''
             [(''additional_extras'', [Txt ''unstable_extras,dev''])]),
        Step (Some ''Show dependencies'') None
          (Run None [Txt ''python -m pip list'']),
        Step (Some ''Run tests'') None
          (Run None
             [Txt ''python -m pytest -n logical --cov=aeon --cov-report=xml --timeout 1800'']),
        Step (Some ''Upload coverage to Codecov'') None
          (Uses ''codecov/codecov-action@v5'' [])]\<close>

definition pr_pytest :: workflow where
  \<open>pr_pytest =
     Workflow ''PR pytest''
       (Some (Concurrency
          [Sub (ECtx ''github'' ''workflow''),
            Txt ''-'',
            Sub (EOr (ECtx ''github'' ''head_ref'') (ECtx ''github'' ''ref''))]
          True))
       [pr_pytest_test_no_soft_deps,
        pr_pytest_pytest,
        pr_pytest_doctests,
        pr_pytest_multithreaded_estimators,
        pr_pytest_codecov]\<close>

text \<open>The workflow \<open>Issue comment posted\<close>.\<close>

definition issue_comment_posted_self_assign :: job where
  \<open>issue_comment_posted_self_assign =
     Job ''self-assign''
       None
       [] [Txt ''ubuntu-24.04'']
       None
       [Step (Some ''Checkout'') None
          (Uses ''actions/checkout@v4''
             [(''sparse-checkout'', [Txt ''.github/utilities''])]),
        Step (Some ''Setup Python 3.12'') None
          (Uses ''actions/setup-python@v5''
             [(''python-version'', [Txt ''3.12''])]),
        Step (Some ''Install PyGithub'') None
          (Run None [Txt ''pip install -Uq PyGithub'']),
        Step (Some ''Create app token'') None
          (Uses ''actions/create-github-app-token@v2''
             [(''app-id'', [Sub (ECtx ''vars'' ''PR_APP_ID'')]),
              (''private-key'', [Sub (ECtx ''secrets'' ''PR_APP_KEY'')])]),
        Step (Some ''Assign issue'') None
          (Run None [Txt ''python .github/utilities/issue_assign.py''])]\<close>

definition issue_comment_posted :: workflow where
  \<open>issue_comment_posted =
     Workflow ''Issue comment posted''
       None
       [issue_comment_posted_self_assign]\<close>

text \<open>The workflow \<open>Pull request labelled\<close>.\<close>

definition pr_labelled_ai_pull_request :: job where
  \<open>pr_labelled_ai_pull_request =
     Job ''ai-pull-request''
       (Some (EEq (ECtx ''github'' ''event.label.name'') (ELit (VStr ''AI pull request''))))
       [] [Txt ''ubuntu-24.04'']
       None
       [Step (Some ''Create app token'') None
          (Uses ''actions/create-github-app-token@v2''
             [(''app-id'', [Sub (ECtx ''vars'' ''PR_APP_ID'')]),
              (''private-key'', [Sub (ECtx ''secrets'' ''PR_APP_KEY'')])]),
        Step (Some ''Checkout main'') None
          (Uses ''actions/checkout@v4''
             [(''sparse-checkout'', [Txt ''.github/utilities''])]),
        Step (Some ''Setup Python 3.12'') None
          (Uses ''actions/setup-python@v5''
             [(''python-version'', [Txt ''3.12''])]),
        Step (Some ''Install PyGithub'') None
          (Run None [Txt ''pip install -Uq PyGithub'']),
        Step (Some ''Process AI label'') None
          (Run None [Txt ''python .github/utilities/ai_spam.py''])]\<close>

definition pr_labelled :: workflow where
  \<open>pr_labelled =
     Workflow ''Pull request labelled''
       (Some (Concurrency
          [Sub (ECtx ''github'' ''workflow''),
            Txt ''-'',
            Sub (ECtx ''github'' ''event.pull_request.number'')]
          True))
       [pr_labelled_ai_pull_request]\<close>

text \<open>The workflow \<open>Issue assigned\<close>.\<close>

definition issue_assigned_remove_good_first_issue :: job where
  \<open>issue_assigned_remove_good_first_issue =
     Job ''remove-good-first-issue''
       None
       [] [Txt ''ubuntu-24.04'']
       None
       [Step (Some ''Create app token'') None
          (Uses ''actions/create-github-app-token@v2''
             [(''app-id'', [Sub (ECtx ''vars'' ''PR_APP_ID'')]),
              (''private-key'', [Sub (ECtx ''secrets'' ''PR_APP_KEY'')])]),
        Step (Some ''Checkout main'') None
          (Uses ''actions/checkout@v4''
             [(''sparse-checkout'', [Txt ''.github/utilities''])]),
        Step (Some ''Setup Python 3.12'') None
          (Uses ''actions/setup-python@v5''
             [(''python-version'', [Txt ''3.12''])]),
        Step (Some ''Install PyGithub'') None
          (Run None [Txt ''pip install -Uq PyGithub'']),
        Step (Some ''Process comment edit'') None
          (Run None
             [Txt ''python .github/utilities/remove_good_first_issue.py''])]\<close>

definition issue_assigned :: workflow where
  \<open>issue_assigned =
     Workflow ''Issue assigned''
       (Some (Concurrency
          [Sub (ECtx ''github'' ''workflow''),
            Txt ''-'',
            Sub (ECtx ''github'' ''event.issue.id'')]
          True))
       [issue_assigned_remove_good_first_issue]\<close>

text \<open>The workflow \<open>Release\<close>.\<close>

definition release_check_manifest :: job where
  \<open>release_check_manifest =
     Job ''check-manifest''
       None
       [] [Txt ''ubuntu-24.04'']
       None
       [Step None None
          (Uses ''actions/checkout@v4'' []),
        Step (Some ''Setup Python 3.12'') None
          (Uses ''actions/setup-python@v5''
             [(''python-version'', [Txt ''3.12''])]),
        Step None None
          (Uses ''pre-commit/action@v3.0.1''
             [(''extra_args'', [Txt ''check-manifest --hook-stage manual''])])]\<close>

definition release_build_project :: job where
  \<open>release_build_project =
     Job ''build-project''
       None
       [''check-manifest''] [Txt ''ubuntu-24.04'']
       None
       [Step None None
          (Uses ''actions/checkout@v4'' []),
        Step (Some ''Setup Python 3.12'') None
          (Uses ''actions/setup-python@v5''
             [(''python-version'', [Txt ''3.12''])]),
        Step (Some ''Build project'') None
          (Run None
             [Txt (''python -m pip install build'' @ NL @ ''python -m build'' @ NL)]),
        Step (Some ''Store build files'') None
          (Uses ''actions/upload-artifact@v4''
             [(''name'', [Txt ''dist'']),
              (''path'', [Txt ''dist/*'']),
              (''retention-days'', [Txt ''5''])])]\<close>

definition release_test_wheels :: job where
  \<open>release_test_wheels =
     Job ''test-wheels''
       None
       [''build-project''] [Sub (ECtx ''matrix'' ''os'')]
       (Some (Strategy False
         [(''os'',
           [ELit (VStr ''ubuntu-24.04''),
            ELit (VStr ''macOS-14''),
            ELit (VStr ''windows-2022'')]),
          (''python-version'',
           [ELit (VStr ''3.10''),
            ELit (VStr ''3.11''),
            ELit (VStr ''3.12''),
            ELit (VStr ''3.13'')])]
         []))
       [Step (Some ''Checkout'') None
          (Uses ''actions/checkout@v4'' []),
        Step (Some ''Setup Python'') None
          (Uses ''actions/setup-python@v5''
             [(''python-version'', [Sub (ECtx ''matrix'' ''python-version'')])]),
        Step (Some ''Clear disik space'') None
          (Uses ''jlumbroso/free-disk-space@v1.3.1''
             [(''dotnet'', [Txt ''false'']),
              (''large-packages'', [Txt ''false'']),
              (''swap-storage'', [Txt ''false''])]),
        Step (Some ''Set swap space'')
          (Some (EEq (ECtx ''runner'' ''os'') (ELit (VStr ''Linux''))))
          (Uses ''pierotofy/set-swap-space@v1.0''
             [(''swap-size-gb'', [Txt ''8''])]),
        Step None None
          (Uses ''actions/download-artifact@v4''
             [(''name'', [Txt ''dist'']),
              (''path'', [Txt ''dist''])]),
        Step (Some ''Windows wheel filename'')
          (Some (EEq (ECtx ''runner'' ''os'') (ELit (VStr ''Windows''))))
          (Run None
             [Txt ''echo "WHEELNAME=$(ls ./dist/aeon-*-none-any.whl)" >> $env:GITHUB_ENV'']),
        Step (Some ''Unix wheel filename'')
          (Some (ENeq (ECtx ''runner'' ''os'') (ELit (VStr ''Windows''))))
          (Run None
             [Txt ''echo "WHEELNAME=$(ls ./dist/aeon-*-none-any.whl)" >> $GITHUB_ENV'']),
        Step (Some ''Use numba cache to set env variables but not restore cache'') None
          (Uses ''./.github/actions/numba_cache''
             [(''cache_name'', [Txt ''release'']),
              (''runner_os'', [Sub (ECtx ''runner'' ''os'')]),
              (''python_version'', [Sub (ECtx ''matrix'' ''python-version'')]),
              (''restore_cache'', [Txt ''false''])]),
        Step (Some ''Windows install'')
          (Some (EEq (ECtx ''runner'' ''os'') (ELit (VStr ''Windows''))))
          (Uses ''nick-fields/retry@v3''
             [(''timeout_minutes'', [Txt ''30'']),
              (''max_attempts'', [Txt ''3'']),
              (''command'', [Txt ''python -m pip install "${env:WHEELNAME}[all_extras,dev]"''])]),
        Step (Some ''Unix install'')
          (Some (ENeq (ECtx ''runner'' ''os'') (ELit (VStr ''Windows''))))
          (Uses ''nick-fields/retry@v3''
             [(''timeout_minutes'', [Txt ''30'']),
              (''max_attempts'', [Txt ''3'']),
              (''command'',
               [Txt ''python -m pip install "'',
                Sub (ECtx ''env'' ''WHEELNAME''),
                Txt ''[all_extras,dev]"''])]),
        Step (Some ''Show dependencies'') None
          (Run None [Txt ''python -m pip list'']),
        Step (Some ''Tests'') None
          (Run None [Txt ''python -m pytest -n logical''])]\<close>

definition release_upload_wheels :: job where
  \<open>release_upload_wheels =
     Job ''upload-wheels''
       None
       [''test-wheels''] [Txt ''ubuntu-24.04'']
       None
       [Step None None
          (Uses ''actions/download-artifact@v4''
             [(''name'', [Txt ''dist'']),
              (''path'', [Txt ''dist''])]),
        Step (Some ''Publish package to PyPI'') None
          (Uses ''pypa/gh-action-pypi-publish@release/v1'' [])]\<close>

definition release :: workflow where
  \<open>release =
     Workflow ''Release''
       None
       [release_check_manifest,
        release_build_project,
        release_test_wheels,
        release_upload_wheels]\<close>

text \<open>The workflow \<open>PR opened\<close>.\<close>

definition pr_opened_labeler :: job where
  \<open>pr_opened_labeler =
     Job ''labeler''
       None
       [] [Txt ''ubuntu-24.04'']
       None
       [Step (Some ''Checkout'') None
          (Uses ''actions/checkout@v4''
             [(''sparse-checkout'', [Txt ''.github/utilities''])]),
        Step (Some ''Setup Python 3.12'') None
          (Uses ''actions/setup-python@v5''
             [(''python-version'', [Txt ''3.12''])]),
        Step (Some ''Install PyGithub'') None
          (Run None [Txt ''pip install -Uq PyGithub'']),
        Step (Some ''Create app token'') None
          (Uses ''actions/create-github-app-token@v2''
             [(''app-id'', [Sub (ECtx ''vars'' ''PR_APP_ID'')]),
              (''private-key'', [Sub (ECtx ''secrets'' ''PR_APP_KEY'')])]),
        Step (Some ''Label pull request'') None
          (Run None [Txt ''python .github/utilities/pr_labeler.py'']),
        Step (Some ''Write pull request comment'') None
          (Run None [Txt ''python .github/utilities/pr_open_commenter.py''])]\<close>

definition pr_opened :: workflow where
  \<open>pr_opened =
     Workflow ''PR opened''
       None
       [pr_opened_labeler]\<close>

text \<open>The workflow \<open>Weekly GitHub maintenance\<close>.\<close>

definition weekly_maintenance_pre_commit_auto_update :: job where
  \<open>weekly_maintenance_pre_commit_auto_update =
     Job ''pre-commit-auto-update''
       None
       [] [Txt ''ubuntu-24.04'']
       None
       [Step (Some ''Checkout main'') None
          (Uses ''actions/checkout@v4'' []),
        Step (Some ''Setup Python 3.12'') None
          (Uses ''actions/setup-python@v5''
             [(''python-version'', [Txt ''3.12''])]),
        Step None None
          (Uses ''browniebroke/pre-commit-autoupdate-action@v1.0.0'' []),
        Step (Some ''Create app token'') (Some (EAlways))
          (Uses ''actions/create-github-app-token@v2''
             [(''app-id'', [Sub (ECtx ''vars'' ''PR_APP_ID'')]),
              (''private-key'', [Sub (ECtx ''secrets'' ''PR_APP_KEY'')])]),
        Step None (Some (EAlways))
          (Uses ''peter-evans/create-pull-request@v7''
             [(''token'', [Sub (ECtx ''steps'' ''app-token.outputs.token'')]),
              (''commit-message'', [Txt ''Automated `pre-commit` hook update'']),
              (''branch'', [Txt ''pre-commit-hooks-update'']),
              (''title'', [Txt ''[MNT] Automated `pre-commit` hook update'']),
              (''body'',
               [Txt ''Automated weekly update to `.pre-commit-config.yaml` hook versions.'']),
              (''labels'', [Txt ''maintenance, full pre-commit, no changelog''])])]\<close>

definition weekly_maintenance_teams_table_auto_update :: job where
  \<open>weekly_maintenance_teams_table_auto_update =
     Job ''teams-table-auto-update''
       None
       [] [Txt ''ubuntu-24.04'']
       None
       [Step (Some ''Checkout main'') None
          (Uses ''actions/checkout@v4''
             [(''sparse-checkout'', [Txt ''.github/utilities''])]),
        Step (Some ''Setup Python 3.12'') None
          (Uses ''actions/setup-python@v5''
             [(''python-version'', [Txt ''3.12''])]),
        Step (Some ''Install requests'') None
          (Run None [Txt ''pip install -Uq requests'']),
        Step (Some ''Create app token'') None
          (Uses ''actions/create-github-app-token@v2''
             [(''app-id'', [Sub (ECtx ''vars'' ''PR_APP_ID'')]),
              (''private-key'', [Sub (ECtx ''secrets'' ''PR_APP_KEY'')])]),
        Step (Some ''Process comment edit'') None
          (Run None
             [Txt ''python .github/utilities/generate_developer_tables.py'']),
        Step None None
          (Uses ''peter-evans/create-pull-request@v7''
             [(''token'', [Sub (ECtx ''steps'' ''app-token.outputs.token'')]),
              (''commit-message'', [Txt ''Automated teams tables update'']),
              (''branch'', [Txt ''webpage-teams-update'']),
              (''title'', [Txt ''[DOC] Automated website teams tables update'']),
              (''body'', [Txt ''Automated weekly update to the website teams tables.'']),
              (''labels'', [Txt ''documentation, no changelog''])])]\<close>

definition weekly_maintenance_github_security_scorecard :: job where
  \<open>weekly_maintenance_github_security_scorecard =
     Job ''github-security-scorecard''
       None
       [] [Txt ''ubuntu-24.04'']
       None
       [Step (Some ''Checkout code'') None
          (Uses ''actions/checkout@v4''
             [(''persist-credentials'', [Txt ''false''])]),
        Step (Some ''Run analysis'') None
          (Uses ''ossf/scorecard-action@v2.4.2''
             [(''results_file'', [Txt ''results.sarif'']),
              (''results_format'', [Txt ''sarif'']),
              (''publish_results'', [Txt ''true''])]),
        Step (Some ''Upload artifact'') None
          (Uses ''actions/upload-artifact@v4''
             [(''name'', [Txt ''SARIF file'']),
              (''path'', [Txt ''results.sarif'']),
              (''retention-days'', [Txt ''5''])]),
        Step (Some ''Upload to code-scanning'') None
          (Uses ''github/codeql-action/upload-sarif@v3''
             [(''sarif_file'', [Txt ''results.sarif''])])]\<close>

definition weekly_maintenance_stale_branches :: job where
  \<open>weekly_maintenance_stale_branches =
     Job ''stale_branches''
       None
       [] [Txt ''ubuntu-24.04'']
       None
       [Step (Some ''Create app token'') None
          (Uses ''actions/create-github-app-token@v2''
             [(''app-id'', [Sub (ECtx ''vars'' ''PR_APP_ID'')]),
              (''private-key'', [Sub (ECtx ''secrets'' ''PR_APP_KEY'')])]),
        Step (Some ''Stale Branches'') None
          (Uses ''crs-k/stale-branches@v8.2.1''
             [(''repo-token'', [Sub (ECtx ''steps'' ''app-token.outputs.token'')]),
              (''days-before-stale'', [Txt ''180'']),
              (''days-before-delete'', [Txt ''210'']),
              (''comment-updates'', [Txt ''true'']),
              (''tag-committer'', [Txt ''true'']),
              (''stale-branch-label'', [Txt ''stale branch'']),
              (''compare-branches'', [Txt ''info'']),
              (''pr-check'', [Txt ''true''])])]\<close>

definition weekly_maintenance :: workflow where
  \<open>weekly_maintenance =
     Workflow ''Weekly GitHub maintenance''
       None
       [weekly_maintenance_pre_commit_auto_update,
        weekly_maintenance_teams_table_auto_update,
        weekly_maintenance_github_security_scorecard,
        weekly_maintenance_stale_branches]\<close>

text \<open>The workflow \<open>PR typecheck\<close>.\<close>

definition pr_typecheck_typecheck :: job where
  \<open>pr_typecheck_typecheck =
     Job ''typecheck''
       (Some (EAnd
                (EEq (ECtx ''github'' ''event_name'') (ELit (VStr ''pull_request'')))
                (EContains
                   (ECtx ''github'' ''event.pull_request.labels.*.name'')
                   (ELit (VStr ''run typecheck test'')))))
       [] [Txt ''ubuntu-24.04'']
       None
       [Step (Some ''Checkout'') None
          (Uses ''actions/checkout@v4'' []),
        Step (Some ''Setup Python 3.12'') None
          (Uses ''actions/setup-python@v5''
             [(''python-version'', [Txt ''3.12''])]),
        Step (Some ''Install aeon, dependencies and mypy'') None
          (Uses ''nick-fields/retry@v3''
             [(''timeout_minutes'', [Txt ''30'']),
              (''max_attempts'', [Txt ''3'']),
              (''command'',
               [Txt ''python -m pip install .[all_extras,unstable_extras,dev] mypy''])]),
        Step (Some ''Show dependencies'') None
          (Run None [Txt ''python -m pip list'']),
        Step (Some ''Run mypy typecheck'') None
          (Run None [Txt ''mypy aeon/''])]\<close>

definition pr_typecheck :: workflow where
  \<open>pr_typecheck =
     Workflow ''PR typecheck''
       (Some (Concurrency
          [Sub (ECtx ''github'' ''workflow''),
            Txt ''-'',
            Sub (EOr (ECtx ''github'' ''head_ref'') (ECtx ''github'' ''ref''))]
          True))
       [pr_typecheck_typecheck]\<close>

text \<open>The workflow \<open>Issue comment edited\<close>.\<close>

definition issue_comment_edited_pr_welcome_edited :: job where
  \<open>issue_comment_edited_pr_welcome_edited =
     Job ''pr-welcome-edited''
       (Some (ECtx ''github'' ''event.issue.pull_request''))
       [] [Txt ''ubuntu-24.04'']
       None
       [Step (Some ''Create app token'') None
          (Uses ''actions/create-github-app-token@v2''
             [(''app-id'', [Sub (ECtx ''vars'' ''PR_APP_ID'')]),
              (''private-key'', [Sub (ECtx ''secrets'' ''PR_APP_KEY'')])]),
        Step (Some ''Checkout main'') None
          (Uses ''actions/checkout@v4''
             [(''sparse-checkout'', [Txt ''.github/utilities''])]),
        Step (Some ''Setup Python 3.12'') None
          (Uses ''actions/setup-python@v5''
             [(''python-version'', [Txt ''3.12''])]),
        Step (Some ''Install PyGithub'') None
          (Run None [Txt ''pip install -Uq PyGithub'']),
        Step (Some ''Process comment edit'') None
          (Run None [Txt ''python .github/utilities/pr_welcome_edited.py'']),
        Step (Some ''Checkout head'')
          (Some (EEq (ECtx ''steps'' ''label_out.outputs.empty_commit'') (ELit (VStr ''true''))))
          (Uses ''actions/checkout@v4''
             [(''repository'', [Sub (ECtx ''steps'' ''label_out.outputs.repo'')]),
              (''ref'', [Sub (ECtx ''steps'' ''label_out.outputs.branch'')]),
              (''token'', [Sub (ECtx ''steps'' ''app-token.outputs.token'')])]),
        Step (Some ''Push empty commit'')
          (Some (EEq (ECtx ''steps'' ''label_out.outputs.empty_commit'') (ELit (VStr ''true''))))
          (Uses ''stefanzweifel/git-auto-commit-action@v6''
             [(''commit_message'', [Txt ''Empty commit for CI'']),
              (''commit_user_name'', [Txt ''aeon-actions-bot[bot]'']),
              (''commit_options'', [Txt ''--allow-empty'']),
              (''skip_dirty_check'', [Txt ''true''])])]\<close>

definition issue_comment_edited :: workflow where
  \<open>issue_comment_edited =
     Workflow ''Issue comment edited''
       (Some (Concurrency
          [Sub (ECtx ''github'' ''workflow''),
            Txt ''-'',
            Sub (ECtx ''github'' ''event.comment.id'')]
          True))
       [issue_comment_edited_pr_welcome_edited]\<close>


definition all_workflows :: "workflow list" where
  "all_workflows =
     [periodic_tests, update_contributors, pr_pytest, issue_comment_posted, pr_labelled,
      issue_assigned, release, pr_opened, weekly_maintenance, pr_typecheck,
      issue_comment_edited]"

definition all_actions :: "action list" where
  "all_actions = [numba_cache, cpu_all_extras]"

subsection \<open>Running a job\<close>

text \<open>The composite actions of the repository, by the path the workflows call them.\<close>

definition local_actions :: "(string \<times> action) list" where
  "local_actions =
     [(''./.github/actions/numba_cache'', numba_cache),
      (''./.github/actions/cpu_all_extras'', cpu_all_extras)]"

text \<open>The operating system behind the label of a hosted runner.\<close>

definition runner_os_of :: "string \<Rightarrow> os option" where
  "runner_os_of label =
     (if prefix ''ubuntu'' (lower label) then Some Linux
      else if prefix ''macos'' (lower label) then Some MacOS
      else if prefix ''windows'' (lower label) then Some Windows
      else None)"

definition run_job_step :: "world \<Rightarrow> ectx \<Rightarrow> step \<Rightarrow> jstate \<Rightarrow> error + jstate" where
  "run_job_step w c st s =
     (case step_do st of
        Run sh t \<Rightarrow> run_step w c st s
      | Uses u args \<Rightarrow>
          (case map_of local_actions u of
             None \<Rightarrow> run_step w c st s
           | Some a \<Rightarrow> run_action w (c_os c) a (eval_args (ctx_lookup w c (env s)) args) s))"

fun run_job_steps :: "world \<Rightarrow> ectx \<Rightarrow> step list \<Rightarrow> jstate \<Rightarrow> error + jstate" where
  "run_job_steps w c [] s = Inr s"
| "run_job_steps w c (st # sts) s =
     (if step_enabled (ctx_lookup w c (env s)) (ok s) st then
        (case run_job_step w c st s of Inl e \<Rightarrow> Inl e | Inr s' \<Rightarrow> run_job_steps w c sts s')
      else run_job_steps w c sts s)"

text \<open>
  The runner label of a job is read before there is a runner: only the matrix and the
  platform's contexts are at hand.
\<close>

definition matrix_lookup :: "world \<Rightarrow> (string \<times> val) list \<Rightarrow> string \<Rightarrow> string \<Rightarrow> val" where
  "matrix_lookup w mx cn p = (if cn = ''matrix'' then opt_val (map_of mx p) else platform_ctx w cn p)"

definition run_job :: "world \<Rightarrow> (string \<times> val) list \<Rightarrow> job \<Rightarrow> jstate \<Rightarrow> error + jstate" where
  "run_job w mx j s =
     (let label = render (matrix_lookup w mx) (runs_on j) in
      case runner_os_of label of
        None \<Rightarrow> Inl (UnknownRunner label)
      | Some ros \<Rightarrow> run_job_steps w \<lparr>c_os = ros, c_inputs = [], c_matrix = mx\<rparr> (job_steps j) s)"

text \<open>
  The combinations of a matrix: one value of every axis, in the order of the axes,
  without the combinations that an \<open>exclude\<close> entry matches in all its keys.
\<close>

fun combos :: "(string \<times> val list) list \<Rightarrow> (string \<times> val) list list" where
  "combos [] = [[]]"
| "combos ((k, vs) # rest) = concat (map (\<lambda>v. map (\<lambda>c. (k, v) # c) (combos rest)) vs)"

definition excluded :: "(string \<times> val) list list \<Rightarrow> (string \<times> val) list \<Rightarrow> bool" where
  "excluded exs c = list_ex (\<lambda>ex. list_all (\<lambda>(k, v). map_of c k = Some v) ex) exs"

definition matrix_combos ::
  "(string \<Rightarrow> string \<Rightarrow> val) \<Rightarrow> strategy \<Rightarrow> (string \<times> val) list list" where
  "matrix_combos lk st =
     filter (\<lambda>c. \<not> excluded (mx_exclude st) c)
       (combos (map (\<lambda>(k, es). (k, map (eval lk) es)) (matrix st)))"

text \<open>
  The key scheme in the words of the specification:
  \<^verbatim>\<open>numba-<cache_name>-<os>-<python_version>-<date>\<close>, and the same without the date.
\<close>

definition spec_key_prefix :: "string \<Rightarrow> string \<Rightarrow> string \<Rightarrow> string" where
  "spec_key_prefix cn ro pv = ''numba-'' @ cn @ ''-'' @ ro @ ''-'' @ pv @ ''-''"

definition spec_dated_key :: "string \<Rightarrow> string \<Rightarrow> string \<Rightarrow> string \<Rightarrow> string" where
  "spec_dated_key cn ro pv d = spec_key_prefix cn ro pv @ d"

definition cache_path :: "world \<Rightarrow> string" where
  "cache_path w = workspace w @ ''/.numba_cache''"

section \<open>Properties\<close>

subsection \<open>Strings and shells\<close>

lemma strip_prefix_append: "strip_prefix p (p @ r) = Some r"
  by (induction p) auto

lemma strip_suffix_append: "strip_suffix suf (b @ suf) = Some b"
proof (induction b)
  case Nil
  show ?case by (cases suf) auto
next
  case (Cons x b)
  have "x # b @ suf \<noteq> suf"
  proof
    assume "x # b @ suf = suf"
    then have "length (x # b @ suf) = length suf" by (rule arg_cong)
    then show False by simp
  qed
  with Cons show ?case by simp
qed

lemma run_bash_echo_env:
  "run_bash d (echo_dq @ body @ env_redirect) =
     (case sh_dquote d body of None \<Rightarrow> Unsupported | Some l \<Rightarrow> EnvLine l)"
  by (simp add: run_bash_def strip_prefix_append strip_suffix_append)

lemma sh_dquote_literal:
  "dq_literal s \<Longrightarrow> \<not> dq_special x \<Longrightarrow>
     sh_dquote d (s @ x # r) = map_option (append s) (sh_dquote d (x # r))"
proof (induction s rule: dq_literal.induct)
  case 1
  show ?case by (simp add: option.map_ident)
next
  case (2 c cs)
  show ?case
  proof (cases "c = CHR 0x5C")
    case True
    show ?thesis
    proof (cases cs)
      case Nil
      with True 2 show ?thesis by (auto simp: dq_special_def option.map_comp comp_def)
    next
      case (Cons y ys)
      with True 2 show ?thesis by (auto simp: dq_special_def option.map_comp comp_def)
    qed
  next
    case False
    with 2 show ?thesis by (auto simp: dq_special_def option.map_comp comp_def)
  qed
qed

lemma sh_dquote_plain: "list_all (\<lambda>c. \<not> dq_special c) s \<Longrightarrow> sh_dquote d s = Some s"
  by (induction s) (auto simp: dq_special_def)

lemma split_env_eq:
  assumes "n \<noteq> []" and "CHR ''='' \<notin> set n"
  shows "split_env (n @ CHR ''='' # v) = Some (n, v)"
proof -
  have tw: "takeWhile (\<lambda>c. c \<noteq> CHR ''='') (n @ CHR ''='' # v) = n"
    using assms(2) by (induction n) auto
  have dw: "dropWhile (\<lambda>c. c \<noteq> CHR ''='') (n @ CHR ''='' # v) = CHR ''='' # v"
    using assms(2) by (induction n) auto
  show ?thesis
    unfolding split_env_def tw dw using assms(1) by simp
qed

lemma split_lines_no_nl:
  "CHR 0x0A \<notin> set s \<Longrightarrow> split_lines_acc acc (s @ NL) = [rev acc @ s, []]"
  by (induction s arbitrary: acc) (auto simp: NL_def)

lemma trim_id:
  assumes "s \<noteq> []" and "\<not> is_space (hd s)" and "\<not> is_space (last s)"
  shows "trim s = s"
proof -
  have a: "dropWhile is_space s = s"
    using assms(1,2) by (cases s) auto
  from assms(1) obtain y ys where r: "rev s = y # ys"
    by (cases "rev s") auto
  have "hd (rev s) = last s"
    using assms(1) by (simp add: hd_rev)
  with r have "y = last s" by simp
  with assms(3) have ny: "\<not> is_space y" by simp
  have b: "dropWhile is_space (rev s) = rev s"
    unfolding r using ny by simp
  show ?thesis by (simp add: trim_def a b)
qed

lemma trim_empty: "trim [] = []"
  by (simp add: trim_def)

lemma map_of_eval_args: "map_of (eval_args lk xs) k = map_option (render lk) (map_of xs k)"
  by (induction xs) (auto simp: eval_args_def)

subsection \<open>The steps of \<open>Numba cache setup\<close>, one by one\<close>

lemma run_echo_plain:
  assumes "list_all (\<lambda>c. \<not> dq_special c) (n @ CHR ''='' # v)"
    and "n \<noteq> []" and "CHR ''='' \<notin> set n"
  shows "run_step w c
           (Step nm None (Run (Some Bash) [Txt (echo_dq @ (n @ CHR ''='' # v) @ env_redirect)])) s
         = Inr (s\<lparr>env := AList.update n v (env s)\<rparr>)"
proof -
  have r: "render lk [Txt (echo_dq @ (n @ CHR ''='' # v) @ env_redirect)]
             = echo_dq @ (n @ CHR ''='' # v) @ env_redirect" for lk
    by (simp add: render_def)
  have e: "run_bash d (render lk [Txt (echo_dq @ (n @ CHR ''='' # v) @ env_redirect)])
             = EnvLine (n @ CHR ''='' # v)" for d lk
    unfolding r run_bash_echo_env sh_dquote_plain [OF assms(1)] by simp
  show ?thesis
    unfolding run_step_def
    by (simp add: Let_def e apply_effect_def split_env_eq [OF assms(2,3)]
          del: append_assoc append.simps)
qed

lemma run_set_cache_env:
  assumes "dq_literal (workspace w)"
  shows "run_step w c nc_set_cache_env s =
           Inr (s\<lparr>env := AList.update ''NUMBA_CACHE_DIR'' (cache_path w) (env s)\<rparr>)"
proof -
  let ?body = "''NUMBA_CACHE_DIR='' @ workspace w @ ''/.numba_cache''"
  have r: \<open>render (ctx_lookup w c (env s))
      [Txt ''echo "NUMBA_CACHE_DIR='', Sub (ECtx ''github'' ''workspace''),
           Txt ''/.numba_cache" >> $GITHUB_ENV'']
      = echo_dq @ ?body @ env_redirect\<close>
    by (simp add: render_def ctx_lookup_def echo_dq_def env_redirect_def)
  have dq: "sh_dquote d ?body = Some ?body" for d
    using sh_dquote_literal [OF assms, of "CHR ''/''" d "''.numba_cache''"]
          sh_dquote_plain [of "''/.numba_cache''" d]
    by (simp add: dq_special_def)
  have e: \<open>run_bash d (render (ctx_lookup w c (env s))
      [Txt ''echo "NUMBA_CACHE_DIR='', Sub (ECtx ''github'' ''workspace''),
           Txt ''/.numba_cache" >> $GITHUB_ENV'']) = EnvLine ?body\<close> for d
    unfolding r run_bash_echo_env dq by simp
  show ?thesis
    unfolding run_step_def nc_set_cache_env_def cache_path_def
    by (simp add: Let_def e apply_effect_def split_env_def)
qed

lemma run_set_cpu_env:
  "run_step w c nc_set_cpu_env s =
     Inr (s\<lparr>env := AList.update ''NUMBA_CPU_NAME'' ''generic'' (env s)\<rparr>)"
proof -
  have d: \<open>nc_set_cpu_env = Step (Some ''Set numba CPU env'') None
       (Run (Some Bash)
          [Txt (echo_dq @ (''NUMBA_CPU_NAME'' @ CHR ''='' # ''generic'') @ env_redirect)])\<close>
    by (simp add: nc_set_cpu_env_def echo_dq_def env_redirect_def)
  show ?thesis unfolding d
    by (rule run_echo_plain) (simp_all add: dq_special_def)
qed

lemma run_set_cpu_features_env:
  "run_step w c nc_set_cpu_features_env s =
     Inr (s\<lparr>env := AList.update ''NUMBA_CPU_FEATURES'' cpu_features (env s)\<rparr>)"
proof -
  have d: \<open>nc_set_cpu_features_env = Step (Some ''Set numba CPU features env'') None
       (Run (Some Bash)
          [Txt (echo_dq @ (''NUMBA_CPU_FEATURES'' @ CHR ''='' # cpu_features) @ env_redirect)])\<close>
    by (simp add: nc_set_cpu_features_env_def echo_dq_def env_redirect_def)
  have p: "list_all (\<lambda>c. \<not> dq_special c) (''NUMBA_CPU_FEATURES'' @ CHR ''='' # cpu_features)"
    by code_simp
  show ?thesis unfolding d
    by (rule run_echo_plain [OF p]) simp_all
qed

lemma run_set_caching_env:
  "run_step w c nc_set_caching_env s =
     Inr (s\<lparr>env := AList.update ''CACHING_CICD_RUNNING'' ''1'' (env s)\<rparr>)"
proof -
  have d: \<open>nc_set_caching_env = Step (Some ''Set CACHING_CICD_RUNNING env'') None
       (Run (Some Bash)
          [Txt (echo_dq @ (''CACHING_CICD_RUNNING'' @ CHR ''='' # ''1'') @ env_redirect)])\<close>
    by (simp add: nc_set_caching_env_def echo_dq_def env_redirect_def)
  show ?thesis unfolding d
    by (rule run_echo_plain) (simp_all add: dq_special_def)
qed

lemma run_get_current_date:
  "run_step w c nc_get_current_date s =
     Inr (s\<lparr>env := AList.update ''CURRENT_DATE'' (fmt_date (today w)) (env s)\<rparr>)"
proof -
  let ?t = \<open>[Txt ''echo "CURRENT_DATE=$(date +'%d/%m/%Y')" >> $GITHUB_ENV'']\<close>
  have r: "render lk ?t = echo_dq @ (''CURRENT_DATE=$'' @ date_cmd_tail) @ env_redirect" for lk
    by (simp add: render_def echo_dq_def env_redirect_def date_cmd_tail_def)
  have dq: "sh_dquote d (''CURRENT_DATE=$'' @ date_cmd_tail) = Some (''CURRENT_DATE='' @ d)" for d
    by (simp add: dq_special_def date_cmd_tail_def)
  have e: "run_bash d (render lk ?t) = EnvLine (''CURRENT_DATE'' @ CHR ''='' # d)" for d lk
    unfolding r run_bash_echo_env dq by simp
  have sp: "split_env (''CURRENT_DATE'' @ CHR ''='' # d) = Some (''CURRENT_DATE'', d)" for d
    by (rule split_env_eq) simp_all
  show ?thesis
    unfolding run_step_def nc_get_current_date_def
    by (simp add: Let_def e apply_effect_def sp del: append.simps)
qed

lemma run_gnu_tar:
  "run_step w c nc_gnu_tar s = Inr (s\<lparr>path_adds := gnu_tar_dir # path_adds s\<rparr>)"
  unfolding run_step_def nc_gnu_tar_def
  by (simp add: Let_def render_def run_cmd_def gnu_tar_dir_def BS_def path_redirect_def
        cmd_special_def apply_effect_def)

lemma arg_numba_cache:
  "map_of (resolve_inputs (act_inputs numba_cache) args) ''cache_name''
     = Some (arg numba_cache args ''cache_name'')"
  "map_of (resolve_inputs (act_inputs numba_cache) args) ''runner_os''
     = Some (arg numba_cache args ''runner_os'')"
  "map_of (resolve_inputs (act_inputs numba_cache) args) ''python_version''
     = Some (arg numba_cache args ''python_version'')"
  "map_of (resolve_inputs (act_inputs numba_cache) args) ''restore_cache''
     = Some (arg numba_cache args ''restore_cache'')"
  by (simp_all add: arg_def numba_cache_def resolve_inputs_def)

lemma lower_lits: "lower ''true'' = ''true''" "lower ''Windows'' = ''windows''"
  by (simp_all add: lower_def to_lower_def upper_chars_def lower_chars_def)

lemma enabled_plain:
  "step_enabled lk b nc_set_cache_env = b"
  "step_enabled lk b nc_set_cpu_env = b"
  "step_enabled lk b nc_set_cpu_features_env = b"
  "step_enabled lk b nc_set_caching_env = b"
  "step_enabled lk b nc_get_current_date = b"
  by (simp_all add: step_enabled_def nc_set_cache_env_def nc_set_cpu_env_def
        nc_set_cpu_features_env_def nc_set_caching_env_def nc_get_current_date_def)

lemma enabled_gnu_tar:
  assumes "c_inputs c = resolve_inputs (act_inputs numba_cache) args"
  shows "step_enabled (ctx_lookup w c e) b nc_gnu_tar
           = (b \<and> lower (arg numba_cache args ''runner_os'') = ''windows'')"
  by (simp add: step_enabled_def nc_gnu_tar_def ctx_lookup_def assms arg_numba_cache
        opt_str_def lower_lits)

lemma enabled_restore_cache:
  assumes "c_inputs c = resolve_inputs (act_inputs numba_cache) args"
  shows "step_enabled (ctx_lookup w c e) b nc_restore_cache
           = (b \<and> lower (arg numba_cache args ''restore_cache'') = ''true'')"
  by (simp add: step_enabled_def nc_restore_cache_def ctx_lookup_def assms arg_numba_cache
        opt_str_def lower_lits)

lemma restore_keys_prefix:
  assumes "CHR 0x0A \<notin> set cn" "CHR 0x0A \<notin> set ro" "CHR 0x0A \<notin> set pv"
  shows "restore_keys_of (spec_key_prefix cn ro pv @ NL) = [spec_key_prefix cn ro pv]"
proof -
  let ?p = "spec_key_prefix cn ro pv"
  have nl: "CHR 0x0A \<notin> set ?p" using assms by (simp add: spec_key_prefix_def)
  have sl: "split_lines_acc [] (?p @ NL) = [?p, []]"
    using split_lines_no_nl [OF nl, of "[]"] by simp
  have tr: "trim ?p = ?p"
    by (rule trim_id) (simp_all add: is_space_def spec_key_prefix_def)
  have ne: "?p \<noteq> []" by (simp add: spec_key_prefix_def)
  have "restore_keys_of (?p @ NL) = filter (\<lambda>l. l \<noteq> []) [?p, []]"
    unfolding restore_keys_of_def sl by (simp only: list.map tr trim_empty)
  also have "\<dots> = [?p]" using ne by simp
  finally show ?thesis .
qed

lemma run_restore_cache_weak:
  "\<exists>fs. run_step w c nc_restore_cache s = Inr (s\<lparr>files := fs\<rparr>)"
proof -
  let ?args = "eval_args (ctx_lookup w c (env s)) nc_restore_with"
  obtain p k where pk: "map_of ?args ''path'' = Some p" "map_of ?args ''key'' = Some k"
    by (simp add: map_of_eval_args nc_restore_with_def)
  have rs: "run_step w c nc_restore_cache s = run_cache_restore ?args s"
    by (simp add: run_step_def nc_restore_cache_def)
  obtain rks where rk: "(case map_of ?args ''restore-keys'' of None \<Rightarrow> [] | Some r \<Rightarrow> restore_keys_of r) = rks"
    by blast
  show ?thesis
  proof (cases "cache_lookup (store s) p k rks")
    case None
    then have "run_cache_restore ?args s = Inr (s\<lparr>files := files s\<rparr>)"
      unfolding run_cache_restore_def pk by (simp add: rk)
    then show ?thesis unfolding rs by blast
  next
    case (Some e)
    then have "run_cache_restore ?args s = Inr (s\<lparr>files := AList.update p (e_data e) (files s)\<rparr>)"
      unfolding run_cache_restore_def pk by (simp add: rk)
    then show ?thesis unfolding rs by blast
  qed
qed

lemma run_restore_cache:
  assumes ci: "c_inputs c = resolve_inputs (act_inputs numba_cache) args"
    and nl: "CHR 0x0A \<notin> set (arg numba_cache args ''cache_name'')"
            "CHR 0x0A \<notin> set (arg numba_cache args ''runner_os'')"
            "CHR 0x0A \<notin> set (arg numba_cache args ''python_version'')"
    and dt: "map_of (env s) ''CURRENT_DATE'' = Some d"
  shows "run_step w c nc_restore_cache s =
     Inr (case cache_lookup (store s) (cache_path w)
                 (spec_dated_key (arg numba_cache args ''cache_name'') (arg numba_cache args ''runner_os'')
                    (arg numba_cache args ''python_version'') d)
                 [spec_key_prefix (arg numba_cache args ''cache_name'') (arg numba_cache args ''runner_os'')
                    (arg numba_cache args ''python_version'')] of
            None \<Rightarrow> s
          | Some e \<Rightarrow> s\<lparr>files := AList.update (cache_path w) (e_data e) (files s)\<rparr>)"
proof -
  let ?cn = "arg numba_cache args ''cache_name''"
  let ?ro = "arg numba_cache args ''runner_os''"
  let ?pv = "arg numba_cache args ''python_version''"
  let ?args = "eval_args (ctx_lookup w c (env s)) nc_restore_with"
  have a: "?args
     = [(''path'', cache_path w), (''key'', spec_dated_key ?cn ?ro ?pv d),
        (''restore-keys'', spec_key_prefix ?cn ?ro ?pv @ NL)]"
    by (simp add: nc_restore_with_def eval_args_def render_def ctx_lookup_def ci arg_numba_cache opt_str_def dt
          cache_path_def spec_dated_key_def spec_key_prefix_def)
  have rs: "run_step w c nc_restore_cache s = run_cache_restore ?args s"
    by (simp add: run_step_def nc_restore_cache_def)
  show ?thesis
    unfolding rs a
    by (simp add: run_cache_restore_def restore_keys_prefix [OF nl] del: append.simps
          split: option.splits)
qed

definition numba_env :: "world \<Rightarrow> (string \<times> string) list \<Rightarrow> (string \<times> string) list" where
  "numba_env w e =
     AList.update ''CURRENT_DATE'' (fmt_date (today w))
       (AList.update ''CACHING_CICD_RUNNING'' ''1''
          (AList.update ''NUMBA_CPU_FEATURES'' cpu_features
             (AList.update ''NUMBA_CPU_NAME'' ''generic''
                (AList.update ''NUMBA_CACHE_DIR'' (cache_path w) e))))"

definition numba_ctx :: "os \<Rightarrow> (string \<times> string) list \<Rightarrow> ectx" where
  "numba_ctx ros args =
     \<lparr>c_os = ros, c_inputs = resolve_inputs (act_inputs numba_cache) args, c_matrix = []\<rparr>"

lemma numba_cache_run:
  assumes dq: "dq_literal (workspace w)" and ok: "ok s"
  shows "run_action w ros numba_cache args s =
     (let s6 = s\<lparr>env := numba_env w (env s),
                 path_adds := (if lower (arg numba_cache args ''runner_os'') = ''windows''
                               then gnu_tar_dir # path_adds s else path_adds s)\<rparr>
      in if lower (arg numba_cache args ''restore_cache'') = ''true''
         then run_step w (numba_ctx ros args) nc_restore_cache s6 else Inr s6)"
proof -
  have ci: "c_inputs (numba_ctx ros args) = resolve_inputs (act_inputs numba_cache) args"
    by (simp add: numba_ctx_def)
  have st: "act_steps numba_cache = [nc_set_cache_env, nc_set_cpu_env, nc_set_cpu_features_env,
      nc_set_caching_env, nc_get_current_date, nc_gnu_tar, nc_restore_cache]"
    by (simp add: numba_cache_def)
  obtain fs where fs: "\<And>s. run_step w (numba_ctx ros args) nc_restore_cache s = Inr (s\<lparr>files := fs s\<rparr>)"
    using run_restore_cache_weak [of w "numba_ctx ros args"] by metis
  show ?thesis
    unfolding run_action_def numba_ctx_def [symmetric] st
    by (simp add: enabled_plain enabled_gnu_tar [OF ci] enabled_restore_cache [OF ci]
          run_set_cache_env [OF dq] run_set_cpu_env run_set_cpu_features_env run_set_caching_env
          run_get_current_date run_gnu_tar ok numba_env_def Let_def fs)
qed

subsection \<open>A concrete run\<close>

text \<open>
  A Linux runner on 2 November 2026 where no program fails, and the cache service
  holding the cache that the \<open>pytest\<close> job saved the day before.
\<close>

definition example_world :: world where
  "example_world =
     \<lparr>workspace = ''/home/runner/work/aeon/aeon'',
      today = \<lparr>day = 2, month = 11, year = 2026\<rparr>,
      platform_ctx = (\<lambda>c p. VNull),
      attempt_fails = (\<lambda>c k. False),
      fs_effect = (\<lambda>c f. f)\<rparr>"

definition start_state :: jstate where
  "start_state = \<lparr>env = [], path_adds = [], files = [], store = [], log = [], ok = True\<rparr>"

definition env_of :: "error + jstate \<Rightarrow> (string \<times> string) list" where
  "env_of r = (case r of Inl e \<Rightarrow> [] | Inr s \<Rightarrow> env s)"

definition pytest_args :: "(string \<times> string) list" where
  "pytest_args =
     [(''cache_name'', ''pytest''), (''runner_os'', ''Linux''), (''python_version'', ''3.12'')]"

definition periodic_pytest_args :: "(string \<times> string) list" where
  "periodic_pytest_args =
     [(''cache_name'', ''pytest''), (''runner_os'', ''Linux''), (''python_version'', ''3.12''),
      (''restore_cache'', ''false'')]"

definition yesterday_store :: "cache_entry list" where
  "yesterday_store =
     [Entry ''numba-pytest-Linux-3.12-01/11/2026'' ''/home/runner/work/aeon/aeon/.numba_cache''
        ''jit cache of 1 November'']"

lemma example_facts:
  "dq_literal (workspace example_world)"
  "ok start_state"
  "fmt_date (today example_world) = ''02/11/2026''"
  by (simp_all add: example_world_def dq_special_def start_state_def fmt_date_def pad2_def
        show_nat.simps digit_char_def)

lemma example_args:
  "arg numba_cache pytest_args ''cache_name'' = ''pytest''"
  "arg numba_cache pytest_args ''runner_os'' = ''Linux''"
  "arg numba_cache pytest_args ''python_version'' = ''3.12''"
  "arg numba_cache pytest_args ''restore_cache'' = ''true''"
  "arg numba_cache periodic_pytest_args ''restore_cache'' = ''false''"
  by (simp_all add: arg_def numba_cache_def resolve_inputs_def input_value_def pytest_args_def
        periodic_pytest_args_def)

section \<open>The claims about \<open>Numba cache setup\<close>\<close>

text \<open>
  Claim C1, as amended.  On a workspace path that bash takes literally, and called while
  the job has not failed, the action \<open>Numba cache setup\<close> exports exactly five
  environment variables, whatever its inputs: \<open>NUMBA_CACHE_DIR\<close> (the workspace
  followed by \<open>/.numba_cache\<close>), \<open>NUMBA_CPU_NAME\<close> (\<open>generic\<close>),
  \<open>NUMBA_CPU_FEATURES\<close> (the fixed feature string), \<open>CACHING_CICD_RUNNING\<close> (\<open>1\<close>)
  and \<open>CURRENT_DATE\<close> (the date as day/month/year).  The environment after the action
  is the environment before it with these five assignments and no other change.
\<close>

theorem numba_cache_exports:
  assumes "dq_literal (workspace w)" and "ok s"
  shows "\<exists>s'. run_action w ros numba_cache args s = Inr s' \<and>
           env s' =
             AList.update ''CURRENT_DATE'' (fmt_date (today w))
               (AList.update ''CACHING_CICD_RUNNING'' ''1''
                  (AList.update ''NUMBA_CPU_FEATURES'' cpu_features
                     (AList.update ''NUMBA_CPU_NAME'' ''generic''
                        (AList.update ''NUMBA_CACHE_DIR'' (workspace w @ ''/.numba_cache'')
                           (env s)))))"
proof -
  obtain fs where
    "\<And>s. run_step w (numba_ctx ros args) nc_restore_cache s = Inr (s\<lparr>files := fs s\<rparr>)"
    using run_restore_cache_weak [of w "numba_ctx ros args"] by metis
  then show ?thesis
    unfolding numba_cache_run [OF assms]
    by (simp add: Let_def numba_env_def cache_path_def)
qed

theorem numba_cache_exports_witness:
  "dq_literal (workspace example_world) \<and> ok start_state \<and>
   (\<exists>s'. run_action example_world Linux numba_cache pytest_args start_state = Inr s' \<and>
      env s' =
        [(''NUMBA_CACHE_DIR'', ''/home/runner/work/aeon/aeon/.numba_cache''),
         (''NUMBA_CPU_NAME'', ''generic''),
         (''NUMBA_CPU_FEATURES'', cpu_features),
         (''CACHING_CICD_RUNNING'', ''1''),
         (''CURRENT_DATE'', ''02/11/2026'')])"
  using example_facts(1,2)
    numba_cache_exports [OF example_facts(1,2), of Linux pytest_args]
  by (simp add: example_facts(3)) (simp add: example_world_def start_state_def)

text \<open>
  Claim C1 as the specification words it names four variables and no other.  In the
  concrete run the action exports a fifth, \<open>CURRENT_DATE\<close>.
\<close>

theorem numba_cache_four_exports_counterexample:
  "map fst (env_of (run_action example_world Linux numba_cache pytest_args start_state)) =
     [''NUMBA_CACHE_DIR'', ''NUMBA_CPU_NAME'', ''NUMBA_CPU_FEATURES'', ''CACHING_CICD_RUNNING'',
      ''CURRENT_DATE'']"
proof -
  obtain fs where
    "\<And>s. run_step example_world (numba_ctx Linux pytest_args) nc_restore_cache s
            = Inr (s\<lparr>files := fs s\<rparr>)"
    using run_restore_cache_weak [of example_world "numba_ctx Linux pytest_args"] by metis
  then show ?thesis
    unfolding numba_cache_run [OF example_facts(1,2)]
    by (simp add: Let_def numba_env_def env_of_def start_state_def)
qed

text \<open>
  Claim C2.  Called with \<open>restore_cache\<close> equal to \<open>true\<close> (on a workspace path
  that bash takes literally, while the job has not failed, with inputs of one line),
  the action restores from the cache service as follows: among the entries for the
  cache directory it takes the entry whose key is exactly
  \<open>numba-<cache_name>-<runner_os>-<python_version>-<current date>\<close>; when there is none,
  the newest entry that the dated key is a prefix of; and when no entry matches the
  dated key, the newest entry whose key starts with the date-less
  \<open>numba-<cache_name>-<runner_os>-<python_version>-\<close>.  With no such entry the cache
  directory stays as it was.
\<close>

theorem restore_true_key_order:
  assumes "dq_literal (workspace w)" and "ok s"
    and "arg numba_cache args ''restore_cache'' = ''true''"
    and "CHR 0x0A \<notin> set (arg numba_cache args ''cache_name'')"
    and "CHR 0x0A \<notin> set (arg numba_cache args ''runner_os'')"
    and "CHR 0x0A \<notin> set (arg numba_cache args ''python_version'')"
  shows "\<exists>s'. run_action w ros numba_cache args s = Inr s' \<and>
     files s' =
       (let dated = spec_dated_key (arg numba_cache args ''cache_name'')
                      (arg numba_cache args ''runner_os'')
                      (arg numba_cache args ''python_version'') (fmt_date (today w));
            dateless = spec_key_prefix (arg numba_cache args ''cache_name'')
                      (arg numba_cache args ''runner_os'')
                      (arg numba_cache args ''python_version'');
            es = filter (\<lambda>e. e_path e = workspace w @ ''/.numba_cache'') (store s)
        in case (case find (\<lambda>e. e_key e = dated) es of
                   Some e \<Rightarrow> Some e
                 | None \<Rightarrow>
                     (case find (\<lambda>e. prefix dated (e_key e)) es of
                        Some e \<Rightarrow> Some e
                      | None \<Rightarrow> find (\<lambda>e. prefix dateless (e_key e)) es)) of
             None \<Rightarrow> files s
           | Some e \<Rightarrow> AList.update (workspace w @ ''/.numba_cache'') (e_data e) (files s))"
proof -
  have ci: "c_inputs (numba_ctx ros args) = resolve_inputs (act_inputs numba_cache) args"
    by (simp add: numba_ctx_def)
  let ?s6 = "s\<lparr>env := numba_env w (env s),
                 path_adds := (if lower (arg numba_cache args ''runner_os'') = ''windows''
                               then gnu_tar_dir # path_adds s else path_adds s)\<rparr>"
  have dt: "map_of (env ?s6) ''CURRENT_DATE'' = Some (fmt_date (today w))"
    by (simp add: numba_env_def update_conv')
  show ?thesis
    unfolding numba_cache_run [OF assms(1,2)] Let_def assms(3) lower_lits
    by (simp only: if_True run_restore_cache [OF ci assms(4,5,6) dt])
       (simp add: cache_lookup_def cache_path_def Let_def split: option.splits)
qed

theorem restore_true_key_order_witness:
  "dq_literal (workspace example_world) \<and> ok (start_state\<lparr>store := yesterday_store\<rparr>) \<and>
   arg numba_cache pytest_args ''restore_cache'' = ''true'' \<and>
   CHR 0x0A \<notin> set (arg numba_cache pytest_args ''cache_name'') \<and>
   CHR 0x0A \<notin> set (arg numba_cache pytest_args ''runner_os'') \<and>
   CHR 0x0A \<notin> set (arg numba_cache pytest_args ''python_version'') \<and>
   (\<exists>s'. run_action example_world Linux numba_cache pytest_args
            (start_state\<lparr>store := yesterday_store\<rparr>) = Inr s'
      \<and> files s' =
          [(''/home/runner/work/aeon/aeon/.numba_cache'', ''jit cache of 1 November'')])"
proof -
  have b: "ok (start_state\<lparr>store := yesterday_store\<rparr>)"
    by (simp add: start_state_def)
  have n: "CHR 0x0A \<notin> set (arg numba_cache pytest_args ''cache_name'')"
     "CHR 0x0A \<notin> set (arg numba_cache pytest_args ''runner_os'')"
     "CHR 0x0A \<notin> set (arg numba_cache pytest_args ''python_version'')"
    by (simp_all add: example_args)
  show ?thesis
    using example_facts(1) b example_args(4) n
      restore_true_key_order [OF example_facts(1) b example_args(4) n, of Linux]
    by (auto simp: example_facts(3) example_args start_state_def yesterday_store_def
          example_world_def spec_dated_key_def spec_key_prefix_def Let_def)
qed

text \<open>
  Claim C8.  Called with \<open>restore_cache\<close> equal to \<open>false\<close> (on a workspace path that
  bash takes literally, while the job has not failed), the action succeeds, its step
  \<open>Restore cache\<close> is not enabled, the five variables \<open>NUMBA_CACHE_DIR\<close>,
  \<open>NUMBA_CPU_NAME\<close>, \<open>NUMBA_CPU_FEATURES\<close>, \<open>CACHING_CICD_RUNNING\<close> and \<open>CURRENT_DATE\<close>
  are set, and the tracked directories and the cache service are as before.  A call
  that leaves \<open>restore_cache\<close> out has it equal to \<open>true\<close>.
\<close>

theorem restore_false_skips_restore:
  assumes "dq_literal (workspace w)" and "ok s"
    and "arg numba_cache args ''restore_cache'' = ''false''"
  shows "\<exists>s'. run_action w ros numba_cache args s = Inr s'
      \<and> \<not> step_enabled (ctx_lookup w (numba_ctx ros args) (env s')) (ok s') nc_restore_cache
      \<and> map_of (env s') ''NUMBA_CACHE_DIR'' = Some (workspace w @ ''/.numba_cache'')
      \<and> map_of (env s') ''NUMBA_CPU_NAME'' = Some ''generic''
      \<and> map_of (env s') ''NUMBA_CPU_FEATURES'' = Some cpu_features
      \<and> map_of (env s') ''CACHING_CICD_RUNNING'' = Some ''1''
      \<and> map_of (env s') ''CURRENT_DATE'' = Some (fmt_date (today w))
      \<and> files s' = files s \<and> store s' = store s
      \<and> arg numba_cache (AList.delete ''restore_cache'' args') ''restore_cache'' = ''true''"
proof -
  have ci: "c_inputs (numba_ctx ros args) = resolve_inputs (act_inputs numba_cache) args"
    by (simp add: numba_ctx_def)
  have lf: "lower ''false'' \<noteq> ''true''"
    by (simp add: lower_def to_lower_def upper_chars_def lower_chars_def)
  have df: "arg numba_cache (AList.delete ''restore_cache'' args') ''restore_cache'' = ''true''"
    by (simp add: arg_def numba_cache_def resolve_inputs_def input_value_def
          AList.delete_conv')
  show ?thesis
    unfolding numba_cache_run [OF assms(1,2)]
    by (simp add: Let_def assms(3) lf enabled_restore_cache [OF ci] numba_env_def
          update_conv' cache_path_def df)
qed

theorem restore_false_skips_restore_witness:
  "dq_literal (workspace example_world) \<and> ok (start_state\<lparr>store := yesterday_store\<rparr>) \<and>
   arg numba_cache periodic_pytest_args ''restore_cache'' = ''false'' \<and>
   (\<exists>s'. run_action example_world Linux numba_cache periodic_pytest_args
            (start_state\<lparr>store := yesterday_store\<rparr>) = Inr s'
      \<and> map_of (env s') ''CURRENT_DATE'' = Some ''02/11/2026''
      \<and> files s' = [] \<and> store s' = yesterday_store)"
proof -
  have b: "ok (start_state\<lparr>store := yesterday_store\<rparr>)"
    by (simp add: start_state_def)
  show ?thesis
    using example_facts(1) b example_args(5)
      restore_false_skips_restore [OF example_facts(1) b example_args(5), of Linux]
    by (auto simp: example_facts(3) start_state_def)
qed

subsection \<open>The steps of \<open>Pip install all_extras with CPU versions\<close>\<close>

lemma to_lower_nonletter:
  assumes "to_lower c = d" and "d \<notin> set lower_chars"
  shows "c = d"
proof (cases "map_of (zip upper_chars lower_chars) c")
  case None
  with assms(1) show ?thesis by (simp add: to_lower_def)
next
  case (Some l)
  then have "(c, l) \<in> set (zip upper_chars lower_chars)" by (rule map_of_SomeD)
  then have "l \<in> set lower_chars" by (rule set_zip_rightD)
  moreover from Some assms(1) have "l = d" by (simp add: to_lower_def)
  ultimately show ?thesis using assms(2) by simp
qed

lemma lower_313: "(lower pv = lower ''3.13'') = (pv = ''3.13'')"
proof
  have l3: "lower ''3.13'' = ''3.13''"
    by (simp add: lower_def to_lower_def upper_chars_def lower_chars_def)
  assume "lower pv = lower ''3.13''"
  then have "lower pv = ''3.13''" by (simp only: l3)
  then obtain a b c d where pv: "pv = [a, b, c, d]"
    and l: "to_lower a = CHR ''3''" "to_lower b = CHR ''.''" "to_lower c = CHR ''1''" "to_lower d = CHR ''3''"
    by (auto simp: lower_def map_eq_Cons_conv)
  have "a = CHR ''3''" "b = CHR ''.''" "c = CHR ''1''" "d = CHR ''3''"
    using l by (auto dest!: to_lower_nonletter simp: lower_chars_def)
  with pv show "pv = ''3.13''" by simp
next
  assume "pv = ''3.13''"
  then show "lower pv = lower ''3.13''" by simp
qed

lemma lower_empty: "(lower s = lower []) = (s = [])"
  by (simp add: lower_def)

lemma lower_linux: "(lower (os_name ros) = lower ''Linux'') = (ros = Linux)"
  by (cases ros) (simp_all add: lower_def to_lower_def upper_chars_def lower_chars_def)

lemma arg_cpu_all_extras:
  "map_of (resolve_inputs (act_inputs cpu_all_extras) args) ''python_version''
     = Some (arg cpu_all_extras args ''python_version'')"
  "map_of (resolve_inputs (act_inputs cpu_all_extras) args) ''additional_extras''
     = Some (arg cpu_all_extras args ''additional_extras'')"
  by (simp_all add: arg_def cpu_all_extras_def resolve_inputs_def)

lemma parse_lits: "parse_nat (trim ''3'') = Some 3" "parse_nat (trim ''30'') = Some 30"
  by (simp_all add: parse_nat_def trim_def is_space_def digit_val_def)


definition cae_ctx :: "os \<Rightarrow> (string \<times> string) list \<Rightarrow> ectx" where
  "cae_ctx ros args =
     \<lparr>c_os = ros, c_inputs = resolve_inputs (act_inputs cpu_all_extras) args, c_matrix = []\<rparr>"


lemma enabled_cae:
  "step_enabled (ctx_lookup w (cae_ctx ros args) e) b cae_install_tensorflow
     = (b \<and> ros = Linux \<and> arg cpu_all_extras args ''python_version'' \<noteq> ''3.13'')"
  "step_enabled (ctx_lookup w (cae_ctx ros args) e) b cae_install_pytorch = (b \<and> ros = Linux)"
  "step_enabled (ctx_lookup w (cae_ctx ros args) e) b cae_install_dependencies = b"
  by (auto simp: step_enabled_def cae_install_tensorflow_def cae_install_pytorch_def
        cae_install_dependencies_def ctx_lookup_def cae_ctx_def arg_cpu_all_extras opt_str_def
        lower_313 lower_linux)

lemma render_dependencies:
  "render (ctx_lookup w (cae_ctx ros args) e)
     [Txt ''python -m pip install .[all_extras'',
      Sub (EOr (EAnd (ENeq (ECtx ''inputs'' ''additional_extras'') (ELit (VStr [])))
                     (ELit (VStr '','')))
               (ELit (VStr []))),
      Sub (ECtx ''inputs'' ''additional_extras''),
      Txt ('']'' @ NL)]
   = ''python -m pip install .[all_extras''
       @ (if arg cpu_all_extras args ''additional_extras'' \<noteq> []
          then '','' @ arg cpu_all_extras args ''additional_extras'' else [])
       @ '']'' @ NL"
  by (simp add: render_def ctx_lookup_def cae_ctx_def arg_cpu_all_extras opt_str_def lower_empty)

lemma exec_once_fields:
  "ok (exec_once w c s) = ok s" "env (exec_once w c s) = env s"
  "log (exec_once w c s) = log s @ [Ran c]"
  by (simp_all add: exec_once_def)

subsection \<open>Jobs that call \<open>Numba cache setup\<close> and save the cache\<close>


















section \<open>The claim about \<open>Pip install all_extras with CPU versions\<close>\<close>

text \<open>
  A retry step with three attempts: how many attempts run, and whether all three fail.
\<close>

definition attempts_made :: "world \<Rightarrow> string \<Rightarrow> nat" where
  "attempts_made w c =
     (if attempt_fails w c 1 then (if attempt_fails w c 2 then 3 else 2) else 1)"

definition all_three_fail :: "world \<Rightarrow> string \<Rightarrow> bool" where
  "all_three_fail w c = (attempt_fails w c 1 \<and> attempt_fails w c 2 \<and> attempt_fails w c 3)"

lemma retry_three:
  "log (retry w c 3 (Suc 0) s) = log s @ replicate (attempts_made w c) (Ran c)"
  "ok (retry w c 3 (Suc 0) s) = (ok s \<and> \<not> all_three_fail w c)"
  "env (retry w c 3 (Suc 0) s) = env s"
  by (simp_all add: eval_nat_numeral attempts_made_def all_three_fail_def exec_once_def)

lemma run_retry_any:
  "run_step w c
     (Step nm cond
        (Uses ''nick-fields/retry@v3''
           [(''timeout_minutes'', [Txt ''30'']), (''max_attempts'', [Txt ''3'']), (''command'', t)])) s
   = Inr (retry w (render (ctx_lookup w c (env s)) t) 3 1 s)"
proof -
  have a: "eval_args lk [(''timeout_minutes'', [Txt ''30'']), (''max_attempts'', [Txt ''3'']), (''command'', t)]
           = [(''timeout_minutes'', ''30''), (''max_attempts'', ''3''), (''command'', render lk t)]" for lk
    by (simp add: eval_args_def render_def)
  show ?thesis
    unfolding run_step_def by (simp add: a run_retry_def parse_lits Let_def)
qed

text \<open>
  Claim C9, amended.  A call of the action while the job has not failed runs, in this
  order and each up to three times, until an attempt succeeds:
  \<open>python -m pip install tensorflow-cpu\<close> if and only if the runner is Linux and the
  input \<open>python_version\<close> is not \<open>3.13\<close>; the install of CPU-only torch if and only
  if the runner is Linux and the install of TensorFlow did not fail three times; and
  \<open>python -m pip install .[all_extras]\<close>, with a comma and the input
  \<open>additional_extras\<close> after \<open>all_extras\<close> exactly when that input is not empty, if
  and only if no install before it failed three times.  It runs nothing else, and it
  succeeds when the last install ran and did not fail three times.  When no install
  fails, this is the claim as the specification words it.  A call after the job has
  failed runs nothing.
\<close>

theorem cpu_all_extras_installs:
  "\<exists>s'. run_action w ros cpu_all_extras args s = Inr s' \<and>
     (if ok s then
        (let tf = ''python -m pip install tensorflow-cpu'';
             torch = ''python -m pip install torch --index-url https://download.pytorch.org/whl/cpu'';
             deps = ''python -m pip install .[all_extras''
                      @ (if arg cpu_all_extras args ''additional_extras'' \<noteq> []
                         then '','' @ arg cpu_all_extras args ''additional_extras'' else [])
                      @ '']'' @ NL;
             tf_runs = (ros = Linux \<and> arg cpu_all_extras args ''python_version'' \<noteq> ''3.13'');
             tf_failed = (tf_runs \<and> all_three_fail w tf);
             torch_runs = (ros = Linux \<and> \<not> tf_failed);
             torch_failed = (torch_runs \<and> all_three_fail w torch);
             deps_runs = (\<not> tf_failed \<and> \<not> torch_failed)
         in log s' = log s
              @ (if tf_runs then replicate (attempts_made w tf) (Ran tf) else [])
              @ (if torch_runs then replicate (attempts_made w torch) (Ran torch) else [])
              @ (if deps_runs then replicate (attempts_made w deps) (Ran deps) else [])
            \<and> ok s' = (deps_runs \<and> \<not> all_three_fail w deps))
      else s' = s)"
proof -
  have st: "act_steps cpu_all_extras
             = [cae_install_tensorflow, cae_install_pytorch, cae_install_dependencies]"
    by (simp add: cpu_all_extras_def)
  have r1: "run_step w c cae_install_tensorflow s
      = Inr (retry w ''python -m pip install tensorflow-cpu'' 3 1 s)" for c s
    unfolding cae_install_tensorflow_def run_retry_any by (simp add: render_def)
  have r2: "run_step w c cae_install_pytorch s
      = Inr (retry w
               ''python -m pip install torch --index-url https://download.pytorch.org/whl/cpu'' 3 1 s)"
    for c s
    unfolding cae_install_pytorch_def run_retry_any by (simp add: render_def)
  have r3: "run_step w (cae_ctx ros args) cae_install_dependencies s
      = Inr (retry w
               (''python -m pip install .[all_extras''
                 @ (if arg cpu_all_extras args ''additional_extras'' \<noteq> []
                    then '','' @ arg cpu_all_extras args ''additional_extras'' else [])
                 @ '']'' @ NL) 3 1 s)" for s ros
    unfolding cae_install_dependencies_def run_retry_any render_dependencies ..
  show ?thesis
    unfolding run_action_def cae_ctx_def [symmetric] st
    by (simp add: enabled_cae r1 r2 r3 retry_three Let_def del: append.simps)
qed

definition py313_dev_args :: "(string \<times> string) list" where
  "py313_dev_args = [(''python_version'', ''3.13''), (''additional_extras'', ''dev'')]"

text \<open>
  A world in which the first attempt to install TensorFlow fails and the second
  succeeds.
\<close>

definition flaky_world :: world where
  "flaky_world =
     example_world\<lparr>attempt_fails :=
       (\<lambda>c k. c = ''python -m pip install tensorflow-cpu'' \<and> k = 1)\<rparr>"

theorem cpu_all_extras_installs_witness:
  "(\<exists>s'. run_action example_world Linux cpu_all_extras py313_dev_args start_state = Inr s' \<and>
      log s' =
        [Ran ''python -m pip install torch --index-url https://download.pytorch.org/whl/cpu'',
         Ran (''python -m pip install .[all_extras,dev]'' @ NL)] \<and>
      ok s')
   \<and> (\<exists>s'. run_action flaky_world Linux cpu_all_extras [] start_state = Inr s' \<and>
      log s' =
        [Ran ''python -m pip install tensorflow-cpu'',
         Ran ''python -m pip install tensorflow-cpu'',
         Ran ''python -m pip install torch --index-url https://download.pytorch.org/whl/cpu'',
         Ran (''python -m pip install .[all_extras]'' @ NL)] \<and>
      ok s')"
proof -
  have a: "arg cpu_all_extras py313_dev_args ''python_version'' = ''3.13''"
    "arg cpu_all_extras py313_dev_args ''additional_extras'' = ''dev''"
    "arg cpu_all_extras [] ''python_version'' = ''3.12''"
    "arg cpu_all_extras [] ''additional_extras'' = []"
    by (simp_all add: arg_def cpu_all_extras_def resolve_inputs_def input_value_def py313_dev_args_def)
  have f: "attempts_made example_world c = 1" "\<not> all_three_fail example_world c" for c
    by (simp_all add: attempts_made_def all_three_fail_def example_world_def)
  have g: "attempts_made flaky_world c = (if c = ''python -m pip install tensorflow-cpu'' then 2 else 1)"
    "\<not> all_three_fail flaky_world c" for c
    by (simp_all add: attempts_made_def all_three_fail_def flaky_world_def)
  have s0: "ok start_state" "log start_state = []"
    by (simp_all add: start_state_def)
  show ?thesis
    using cpu_all_extras_installs [of example_world Linux py313_dev_args start_state]
      cpu_all_extras_installs [of flaky_world Linux "[]" start_state]
    by (simp add: a f g s0 Let_def eval_nat_numeral)
qed

text \<open>
  Claim C9 as the specification words it holds for every call: torch is installed
  whenever the runner is Linux.  In a world where every attempt to install TensorFlow
  fails, a call on Linux with the default inputs runs the three attempts and nothing
  more: torch is not installed, and neither is the package.
\<close>

definition tensorflow_down :: world where
  "tensorflow_down =
     example_world\<lparr>attempt_fails := (\<lambda>c k. c = ''python -m pip install tensorflow-cpu'')\<rparr>"

theorem torch_skipped_on_linux_counterexample:
  "run_action tensorflow_down Linux cpu_all_extras [] start_state =
     Inr (start_state
            \<lparr>log := [Ran ''python -m pip install tensorflow-cpu'',
                     Ran ''python -m pip install tensorflow-cpu'',
                     Ran ''python -m pip install tensorflow-cpu''],
             ok := False\<rparr>)"
  by code_simp

section \<open>The claim about the caches that the periodic tests save\<close>











section \<open>The configuration as a whole\<close>

text \<open>
  Every job of every workflow, and every step: those of the jobs, then those of the two
  composite actions.
\<close>

definition all_jobs :: "job list" where
  "all_jobs = concat (map wf_jobs all_workflows)"

definition all_steps :: "step list" where
  "all_steps = concat (map job_steps all_jobs) @ concat (map act_steps all_actions)"

subsection \<open>Steps that retry, and steps that run after a failure\<close>

text \<open>
  A step retries when it calls \<^verbatim>\<open>nick-fields/retry\<close>, at any version.  Its limits
  are the inputs \<open>max_attempts\<close> and \<open>timeout_minutes\<close>.
\<close>

definition is_retry :: "step \<Rightarrow> bool" where
  "is_retry st =
     (case step_do st of Run sh t \<Rightarrow> False | Uses u a \<Rightarrow> prefix ''nick-fields/retry@'' u)"

definition retry_3_30 :: "step \<Rightarrow> bool" where
  "retry_3_30 st =
     (case step_do st of
        Run sh t \<Rightarrow> False
      | Uses u a \<Rightarrow>
          map_of a ''max_attempts'' = Some [Txt ''3''] \<and>
          map_of a ''timeout_minutes'' = Some [Txt ''30''])"

text \<open>
  The condition of a step overrides the status of the job when it calls a status
  function; \<open>always()\<close> is the only one the configuration uses.
\<close>

definition status_override :: "step \<Rightarrow> bool" where
  "status_override st = (case step_if st of None \<Rightarrow> False | Some e \<Rightarrow> has_status_fn e)"

definition fail_fast_of :: "job \<Rightarrow> bool option" where
  "fail_fast_of j = map_option fail_fast (job_strategy j)"

definition has_matrix :: "job \<Rightarrow> bool" where
  "has_matrix j = (job_strategy j \<noteq> None)"

definition has_concurrency :: "workflow \<Rightarrow> bool" where
  "has_concurrency fl = (wf_concurrency fl \<noteq> None)"

definition cancels :: "workflow \<Rightarrow> bool" where
  "cancels fl = (case wf_concurrency fl of None \<Rightarrow> False | Some c \<Rightarrow> cancel_in_progress c)"

subsection \<open>The commands of the configuration\<close>

text \<open>
  The shell commands that the configuration holds: the script of a \<open>run\<close> step and
  the \<open>command\<close> of a retry step, with their expressions evaluated against a platform
  that answers null everywhere.  A step that calls one of the two composite actions
  contributes the commands of the action, under the inputs of the call.
\<close>

definition static_world :: world where
  "static_world =
     \<lparr>workspace = [], today = \<lparr>day = 1, month = 1, year = 1970\<rparr>,
      platform_ctx = (\<lambda>c p. VNull), attempt_fails = (\<lambda>c k. False),
      fs_effect = (\<lambda>c f. f)\<rparr>"

definition static_lk :: "(string \<times> string) list \<Rightarrow> string \<Rightarrow> string \<Rightarrow> val" where
  "static_lk ins = ctx_lookup static_world \<lparr>c_os = Linux, c_inputs = ins, c_matrix = []\<rparr> []"

definition basic_commands :: "(string \<Rightarrow> string \<Rightarrow> val) \<Rightarrow> step \<Rightarrow> string list" where
  "basic_commands lk st =
     (case step_do st of
        Run sh t \<Rightarrow> [render lk t]
      | Uses u a \<Rightarrow>
          (if is_retry st
           then (case map_of a ''command'' of None \<Rightarrow> [] | Some t \<Rightarrow> [render lk t])
           else []))"

definition action_commands :: "action \<Rightarrow> (string \<times> string) list \<Rightarrow> string list" where
  "action_commands a args =
     concat (map (basic_commands (static_lk (resolve_inputs (act_inputs a) args))) (act_steps a))"

definition numba_commands :: "string list" where
  "numba_commands = action_commands numba_cache []"

definition step_commands :: "step \<Rightarrow> string list" where
  "step_commands st =
     (case step_do st of
        Run sh t \<Rightarrow> basic_commands (static_lk []) st
      | Uses u a \<Rightarrow>
          (case map_of local_actions u of
             None \<Rightarrow> basic_commands (static_lk []) st
           | Some act \<Rightarrow> action_commands act (eval_args (static_lk []) a)))"

definition job_commands :: "job \<Rightarrow> string list" where
  "job_commands j = concat (map step_commands (job_steps j))"

definition all_commands :: "string list" where
  "all_commands =
     concat (map job_commands all_jobs) @ concat (map (\<lambda>a. action_commands a []) all_actions)"

text \<open>
  The extras of a \<open>pip install\<close> command are the names between the brackets after the
  package, separated by commas.
\<close>

fun split_on :: "char \<Rightarrow> string \<Rightarrow> string \<Rightarrow> string list" where
  "split_on sep cur [] = [rev cur]"
| "split_on sep cur (c # cs) =
     (if c = sep then rev cur # split_on sep [] cs else split_on sep (c # cur) cs)"

definition is_pip_install :: "string \<Rightarrow> bool" where
  "is_pip_install cmd = is_sub ''pip install'' cmd"

definition pip_extras :: "string \<Rightarrow> string list" where
  "pip_extras cmd =
     (if is_pip_install cmd then
        (case dropWhile (\<lambda>c. c \<noteq> CHR ''['') cmd of
           [] \<Rightarrow> []
         | b # rest \<Rightarrow> split_on CHR '','' [] (takeWhile (\<lambda>c. c \<noteq> CHR '']'') rest))
      else [])"

definition extras_of :: "string list \<Rightarrow> string list" where
  "extras_of cmds = concat (map pip_extras cmds)"

text \<open>
  A pytest invocation, its leading words and the value of an option, the word after it.
\<close>

definition words_of :: "string \<Rightarrow> string list" where
  "words_of s = filter (\<lambda>w. w \<noteq> []) (split_on CHR '' '' [] s)"

fun option_value :: "string \<Rightarrow> string list \<Rightarrow> string option" where
  "option_value opt [] = None"
| "option_value opt [w] = None"
| "option_value opt (w # v # ws) = (if w = opt then Some v else option_value opt (v # ws))"

definition is_pytest :: "string \<Rightarrow> bool" where
  "is_pytest cmd = is_sub ''pytest'' cmd"

definition n_logical :: "string \<Rightarrow> bool" where
  "n_logical cmd = (take 5 (words_of cmd) = [''python'', ''-m'', ''pytest'', ''-n'', ''logical''])"

definition pytest_mode :: "string \<Rightarrow> bool \<times> string option \<times> string option" where
  "pytest_mode cmd =
     (n_logical cmd, option_value ''-n'' (words_of cmd),
      option_value ''--enablethreading'' (words_of cmd))"

definition pytest_modes :: "string list \<Rightarrow> (bool \<times> string option \<times> string option) list" where
  "pytest_modes cmds = map pytest_mode (filter is_pytest cmds)"

subsection \<open>Concurrency groups\<close>

text \<open>
  The platform keeps the runs of the workflows.  A run that starts in a concurrency group
  with \<open>cancel-in-progress\<close> cancels the runs of the group that are in progress or
  queued and starts at once.  Without \<open>cancel-in-progress\<close> it starts at once when
  no run of the group is in progress; otherwise it takes the place of the queued run of
  the group and waits.  When a run finishes, the oldest queued run of its group starts.
\<close>

datatype run_status = Queued | InProgress | Cancelled | Completed

datatype wf_run = WfRun (run_of: string) (run_group: "string option") (run_status: run_status)

definition set_status :: "run_status \<Rightarrow> wf_run \<Rightarrow> wf_run" where
  "set_status st r = WfRun (run_of r) (run_group r) st"

definition cancel_group :: "string \<Rightarrow> wf_run \<Rightarrow> wf_run" where
  "cancel_group g r =
     (if run_group r = Some g \<and> (run_status r = InProgress \<or> run_status r = Queued)
      then set_status Cancelled r else r)"

definition cancel_queued :: "string \<Rightarrow> wf_run \<Rightarrow> wf_run" where
  "cancel_queued g r =
     (if run_group r = Some g \<and> run_status r = Queued then set_status Cancelled r else r)"

definition running :: "string \<Rightarrow> wf_run list \<Rightarrow> wf_run list" where
  "running g rs = filter (\<lambda>r. run_group r = Some g \<and> run_status r = InProgress) rs"

definition start_run :: "(string \<Rightarrow> string \<Rightarrow> val) \<Rightarrow> workflow \<Rightarrow> wf_run list \<Rightarrow> wf_run list" where
  "start_run lk fl rs =
     (case wf_concurrency fl of
        None \<Rightarrow> rs @ [WfRun (wf_name fl) None InProgress]
      | Some c \<Rightarrow>
          (let g = render lk (cc_group c) in
           if cancel_in_progress c
           then map (cancel_group g) rs @ [WfRun (wf_name fl) (Some g) InProgress]
           else if running g rs = [] then rs @ [WfRun (wf_name fl) (Some g) InProgress]
           else map (cancel_queued g) rs @ [WfRun (wf_name fl) (Some g) Queued]))"

fun promote :: "string \<Rightarrow> wf_run list \<Rightarrow> wf_run list" where
  "promote g [] = []"
| "promote g (r # rs) =
     (if run_group r = Some g \<and> run_status r = Queued then set_status InProgress r # rs
      else r # promote g rs)"

definition finish_run :: "nat \<Rightarrow> wf_run list \<Rightarrow> wf_run list" where
  "finish_run i rs =
     (if i < length rs \<and> run_status (rs ! i) = InProgress
      then (let rs' = rs[i := set_status Completed (rs ! i)] in
            case run_group (rs ! i) of None \<Rightarrow> rs' | Some g \<Rightarrow> promote g rs')
      else rs)"

text \<open>The group of a run of a workflow; the expression of the block is evaluated at the start.\<close>

definition the_group :: "(string \<Rightarrow> string \<Rightarrow> val) \<Rightarrow> workflow \<Rightarrow> string" where
  "the_group lk fl = (case wf_concurrency fl of None \<Rightarrow> [] | Some c \<Rightarrow> render lk (cc_group c))"

text \<open>A history of the platform: runs start and finish, in any order.\<close>

datatype sched_event = Start workflow "string \<Rightarrow> string \<Rightarrow> val" | Finish nat

fun apply_event :: "wf_run list \<Rightarrow> sched_event \<Rightarrow> wf_run list" where
  "apply_event rs (Start fl lk) = start_run lk fl rs"
| "apply_event rs (Finish i) = finish_run i rs"

definition run_events :: "sched_event list \<Rightarrow> wf_run list" where
  "run_events evs = foldl apply_event [] evs"

subsection \<open>A run with a failing step\<close>

text \<open>
  A world in which the action that updates the pre-commit hooks fails, and what a run
  leaves behind: the commands and actions executed, in order, and the status of the job.
\<close>

definition failing_autoupdate_world :: world where
  "failing_autoupdate_world =
     example_world\<lparr>attempt_fails :=
       (\<lambda>c k. c = ''browniebroke/pre-commit-autoupdate-action@v1.0.0'')\<rparr>"

fun event_label :: "event \<Rightarrow> string" where
  "event_label (Ran c) = c"
| "event_label (Called u a) = u"

definition labels_of :: "error + jstate \<Rightarrow> string list" where
  "labels_of r = (case r of Inl e \<Rightarrow> [] | Inr s \<Rightarrow> map event_label (log s))"

definition ok_of :: "error + jstate \<Rightarrow> bool" where
  "ok_of r = (case r of Inl e \<Rightarrow> False | Inr s \<Rightarrow> ok s)"

section \<open>Scanning the configuration\<close>

text \<open>
  The commands of the numba cache action read no input: wherever the action is called,
  they are the same.
\<close>

lemma numba_commands_any: "action_commands numba_cache args = numba_commands"
  by (simp add: numba_commands_def action_commands_def numba_cache_def nc_set_cache_env_def
      nc_set_cpu_env_def nc_set_cpu_features_env_def nc_set_caching_env_def
      nc_get_current_date_def nc_gnu_tar_def nc_restore_cache_def basic_commands_def
      is_retry_def static_lk_def ctx_lookup_def static_world_def render_def)

lemma step_commands_run: "step_commands (Step n c (Run sh t)) = [render (static_lk []) t]"
  by (simp add: step_commands_def basic_commands_def)

lemma step_commands_numba:
  "step_commands (Step n c (Uses ''./.github/actions/numba_cache'' a)) = numba_commands"
  by (simp add: step_commands_def local_actions_def numba_commands_any)

lemma step_commands_cae:
  "step_commands (Step n c (Uses ''./.github/actions/cpu_all_extras'' a))
     = action_commands cpu_all_extras (eval_args (static_lk []) a)"
  by (simp add: step_commands_def local_actions_def)

lemma step_commands_uses:
  "map_of local_actions u = None \<Longrightarrow>
   step_commands (Step n c (Uses u a)) =
     (if prefix ''nick-fields/retry@'' u
      then (case map_of a ''command'' of None \<Rightarrow> [] | Some t \<Rightarrow> [render (static_lk []) t])
      else [])"
  by (simp add: step_commands_def basic_commands_def is_retry_def)

lemma extras_of_simps:
  "extras_of [] = []"
  "extras_of (c # cs) = pip_extras c @ extras_of cs"
  "extras_of (xs @ ys) = extras_of xs @ extras_of ys"
  by (simp_all add: extras_of_def)

lemma pytest_modes_simps:
  "pytest_modes [] = []"
  "pytest_modes (c # cs) =
     (if is_pytest c then pytest_mode c # pytest_modes cs else pytest_modes cs)"
  "pytest_modes (xs @ ys) = pytest_modes xs @ pytest_modes ys"
  by (simp_all add: pytest_modes_def)

lemmas scan_simps = job_commands_def step_commands_run step_commands_numba step_commands_cae
  step_commands_uses local_actions_def extras_of_simps pytest_modes_simps
  static_lk_def ctx_lookup_def static_world_def opt_str_def opt_val_def render_def
  action_commands_def cpu_all_extras_def cae_install_tensorflow_def cae_install_pytorch_def
  cae_install_dependencies_def resolve_inputs_def input_value_def eval_args_def
  basic_commands_def is_retry_def NL_def BS_def lower_def to_lower_def upper_chars_def
  lower_chars_def is_pip_install_def pip_extras_def is_pytest_def pytest_mode_def
  n_logical_def words_of_def

lemma numba_cache_steps:
  "map retry_3_30 (filter is_retry (act_steps numba_cache)) = []"
  "filter status_override (act_steps numba_cache) = []"
  by code_simp+

lemma numba_cache_commands:
  "extras_of numba_commands = []"
  "pytest_modes numba_commands = []"
  by (simp_all add: numba_commands_def numba_cache_def nc_set_cache_env_def
      nc_set_cpu_env_def nc_set_cpu_features_env_def nc_set_caching_env_def
      nc_get_current_date_def nc_gnu_tar_def nc_restore_cache_def cpu_features_def
      gnu_tar_dir_def scan_simps)

lemma cpu_all_extras_steps:
  "map retry_3_30 (filter is_retry (act_steps cpu_all_extras)) = [True, True, True]"
  "filter status_override (act_steps cpu_all_extras) = []"
  by code_simp+

lemma cpu_all_extras_commands:
  "extras_of (action_commands cpu_all_extras []) = [''all_extras'']"
  "pytest_modes (action_commands cpu_all_extras []) = []"
  by (simp_all add: scan_simps)

text \<open>
  For every job: the limits of its retry steps, its steps with a status function, the
  \<open>fail-fast\<close> of its strategy and its name.
\<close>

lemma periodic_tests_check_manifest_steps:
  "map retry_3_30 (filter is_retry (job_steps periodic_tests_check_manifest)) = []"
  "filter status_override (job_steps periodic_tests_check_manifest) = []"
  "fail_fast_of periodic_tests_check_manifest = None"
  "job_id periodic_tests_check_manifest = ''check-manifest''"
  by code_simp+

lemma periodic_tests_pre_commit_steps:
  "map retry_3_30 (filter is_retry (job_steps periodic_tests_pre_commit)) = []"
  "filter status_override (job_steps periodic_tests_pre_commit) = []"
  "fail_fast_of periodic_tests_pre_commit = None"
  "job_id periodic_tests_pre_commit = ''pre-commit''"
  by code_simp+

lemma periodic_tests_run_notebook_examples_steps:
  "map retry_3_30 (filter is_retry (job_steps periodic_tests_run_notebook_examples)) = [True]"
  "filter status_override (job_steps periodic_tests_run_notebook_examples) = []"
  "fail_fast_of periodic_tests_run_notebook_examples = None"
  "job_id periodic_tests_run_notebook_examples = ''run-notebook-examples''"
  by code_simp+

lemma periodic_tests_test_core_imports_steps:
  "map retry_3_30 (filter is_retry (job_steps periodic_tests_test_core_imports)) = [True]"
  "filter status_override (job_steps periodic_tests_test_core_imports) = []"
  "fail_fast_of periodic_tests_test_core_imports = None"
  "job_id periodic_tests_test_core_imports = ''test-core-imports''"
  by code_simp+

lemma periodic_tests_test_no_soft_deps_steps:
  "map retry_3_30 (filter is_retry (job_steps periodic_tests_test_no_soft_deps)) = [True]"
  "filter status_override (job_steps periodic_tests_test_no_soft_deps) = []"
  "fail_fast_of periodic_tests_test_no_soft_deps = None"
  "job_id periodic_tests_test_no_soft_deps = ''test-no-soft-deps''"
  by code_simp+

lemma periodic_tests_pytest_steps:
  "map retry_3_30 (filter is_retry (job_steps periodic_tests_pytest)) = [True]"
  "filter status_override (job_steps periodic_tests_pytest) = []"
  "fail_fast_of periodic_tests_pytest = Some False"
  "job_id periodic_tests_pytest = ''pytest''"
  by code_simp+

lemma periodic_tests_doctests_steps:
  "map retry_3_30 (filter is_retry (job_steps periodic_tests_doctests)) = [True]"
  "filter status_override (job_steps periodic_tests_doctests) = []"
  "fail_fast_of periodic_tests_doctests = None"
  "job_id periodic_tests_doctests = ''doctests''"
  by code_simp+

lemma periodic_tests_multithreaded_estimators_steps:
  "map retry_3_30 (filter is_retry (job_steps periodic_tests_multithreaded_estimators)) = [True]"
  "filter status_override (job_steps periodic_tests_multithreaded_estimators) = []"
  "fail_fast_of periodic_tests_multithreaded_estimators = None"
  "job_id periodic_tests_multithreaded_estimators = ''multithreaded-estimators''"
  by code_simp+

lemma periodic_tests_codecov_steps:
  "map retry_3_30 (filter is_retry (job_steps periodic_tests_codecov)) = [True]"
  "filter status_override (job_steps periodic_tests_codecov) = []"
  "fail_fast_of periodic_tests_codecov = None"
  "job_id periodic_tests_codecov = ''codecov''"
  by code_simp+

lemma update_contributors_generate_markdown_and_commit_steps:
  "map retry_3_30 (filter is_retry (job_steps update_contributors_generate_markdown_and_commit)) = []"
  "filter status_override (job_steps update_contributors_generate_markdown_and_commit) = []"
  "fail_fast_of update_contributors_generate_markdown_and_commit = None"
  "job_id update_contributors_generate_markdown_and_commit = ''generate-markdown-and-commit''"
  by code_simp+

lemma pr_pytest_test_no_soft_deps_steps:
  "map retry_3_30 (filter is_retry (job_steps pr_pytest_test_no_soft_deps)) = [True]"
  "filter status_override (job_steps pr_pytest_test_no_soft_deps) = []"
  "fail_fast_of pr_pytest_test_no_soft_deps = None"
  "job_id pr_pytest_test_no_soft_deps = ''test-no-soft-deps''"
  by code_simp+

lemma pr_pytest_pytest_steps:
  "map retry_3_30 (filter is_retry (job_steps pr_pytest_pytest)) = []"
  "filter status_override (job_steps pr_pytest_pytest) = []"
  "fail_fast_of pr_pytest_pytest = Some False"
  "job_id pr_pytest_pytest = ''pytest''"
  by code_simp+

lemma pr_pytest_doctests_steps:
  "map retry_3_30 (filter is_retry (job_steps pr_pytest_doctests)) = []"
  "filter status_override (job_steps pr_pytest_doctests) = []"
  "fail_fast_of pr_pytest_doctests = None"
  "job_id pr_pytest_doctests = ''doctests''"
  by code_simp+

lemma pr_pytest_multithreaded_estimators_steps:
  "map retry_3_30 (filter is_retry (job_steps pr_pytest_multithreaded_estimators)) = []"
  "filter status_override (job_steps pr_pytest_multithreaded_estimators) = []"
  "fail_fast_of pr_pytest_multithreaded_estimators = None"
  "job_id pr_pytest_multithreaded_estimators = ''multithreaded-estimators''"
  by code_simp+

lemma pr_pytest_codecov_steps:
  "map retry_3_30 (filter is_retry (job_steps pr_pytest_codecov)) = []"
  "filter status_override (job_steps pr_pytest_codecov) = []"
  "fail_fast_of pr_pytest_codecov = None"
  "job_id pr_pytest_codecov = ''codecov''"
  by code_simp+

lemma issue_comment_posted_self_assign_steps:
  "map retry_3_30 (filter is_retry (job_steps issue_comment_posted_self_assign)) = []"
  "filter status_override (job_steps issue_comment_posted_self_assign) = []"
  "fail_fast_of issue_comment_posted_self_assign = None"
  "job_id issue_comment_posted_self_assign = ''self-assign''"
  by code_simp+

lemma pr_labelled_ai_pull_request_steps:
  "map retry_3_30 (filter is_retry (job_steps pr_labelled_ai_pull_request)) = []"
  "filter status_override (job_steps pr_labelled_ai_pull_request) = []"
  "fail_fast_of pr_labelled_ai_pull_request = None"
  "job_id pr_labelled_ai_pull_request = ''ai-pull-request''"
  by code_simp+

lemma issue_assigned_remove_good_first_issue_steps:
  "map retry_3_30 (filter is_retry (job_steps issue_assigned_remove_good_first_issue)) = []"
  "filter status_override (job_steps issue_assigned_remove_good_first_issue) = []"
  "fail_fast_of issue_assigned_remove_good_first_issue = None"
  "job_id issue_assigned_remove_good_first_issue = ''remove-good-first-issue''"
  by code_simp+

lemma release_check_manifest_steps:
  "map retry_3_30 (filter is_retry (job_steps release_check_manifest)) = []"
  "filter status_override (job_steps release_check_manifest) = []"
  "fail_fast_of release_check_manifest = None"
  "job_id release_check_manifest = ''check-manifest''"
  by code_simp+

lemma release_build_project_steps:
  "map retry_3_30 (filter is_retry (job_steps release_build_project)) = []"
  "filter status_override (job_steps release_build_project) = []"
  "fail_fast_of release_build_project = None"
  "job_id release_build_project = ''build-project''"
  by code_simp+

lemma release_test_wheels_steps:
  "map retry_3_30 (filter is_retry (job_steps release_test_wheels)) = [True, True]"
  "filter status_override (job_steps release_test_wheels) = []"
  "fail_fast_of release_test_wheels = Some False"
  "job_id release_test_wheels = ''test-wheels''"
  by code_simp+

lemma release_upload_wheels_steps:
  "map retry_3_30 (filter is_retry (job_steps release_upload_wheels)) = []"
  "filter status_override (job_steps release_upload_wheels) = []"
  "fail_fast_of release_upload_wheels = None"
  "job_id release_upload_wheels = ''upload-wheels''"
  by code_simp+

lemma pr_opened_labeler_steps:
  "map retry_3_30 (filter is_retry (job_steps pr_opened_labeler)) = []"
  "filter status_override (job_steps pr_opened_labeler) = []"
  "fail_fast_of pr_opened_labeler = None"
  "job_id pr_opened_labeler = ''labeler''"
  by code_simp+

lemma weekly_maintenance_pre_commit_auto_update_steps:
  "map retry_3_30 (filter is_retry (job_steps weekly_maintenance_pre_commit_auto_update)) = []"
  "filter status_override (job_steps weekly_maintenance_pre_commit_auto_update) = drop 3 (job_steps weekly_maintenance_pre_commit_auto_update)"
  "fail_fast_of weekly_maintenance_pre_commit_auto_update = None"
  "job_id weekly_maintenance_pre_commit_auto_update = ''pre-commit-auto-update''"
  by code_simp+

lemma weekly_maintenance_teams_table_auto_update_steps:
  "map retry_3_30 (filter is_retry (job_steps weekly_maintenance_teams_table_auto_update)) = []"
  "filter status_override (job_steps weekly_maintenance_teams_table_auto_update) = []"
  "fail_fast_of weekly_maintenance_teams_table_auto_update = None"
  "job_id weekly_maintenance_teams_table_auto_update = ''teams-table-auto-update''"
  by code_simp+

lemma weekly_maintenance_github_security_scorecard_steps:
  "map retry_3_30 (filter is_retry (job_steps weekly_maintenance_github_security_scorecard)) = []"
  "filter status_override (job_steps weekly_maintenance_github_security_scorecard) = []"
  "fail_fast_of weekly_maintenance_github_security_scorecard = None"
  "job_id weekly_maintenance_github_security_scorecard = ''github-security-scorecard''"
  by code_simp+

lemma weekly_maintenance_stale_branches_steps:
  "map retry_3_30 (filter is_retry (job_steps weekly_maintenance_stale_branches)) = []"
  "filter status_override (job_steps weekly_maintenance_stale_branches) = []"
  "fail_fast_of weekly_maintenance_stale_branches = None"
  "job_id weekly_maintenance_stale_branches = ''stale_branches''"
  by code_simp+

lemma pr_typecheck_typecheck_steps:
  "map retry_3_30 (filter is_retry (job_steps pr_typecheck_typecheck)) = [True]"
  "filter status_override (job_steps pr_typecheck_typecheck) = []"
  "fail_fast_of pr_typecheck_typecheck = None"
  "job_id pr_typecheck_typecheck = ''typecheck''"
  by code_simp+

lemma issue_comment_edited_pr_welcome_edited_steps:
  "map retry_3_30 (filter is_retry (job_steps issue_comment_edited_pr_welcome_edited)) = []"
  "filter status_override (job_steps issue_comment_edited_pr_welcome_edited) = []"
  "fail_fast_of issue_comment_edited_pr_welcome_edited = None"
  "job_id issue_comment_edited_pr_welcome_edited = ''pr-welcome-edited''"
  by code_simp+

text \<open>
  For every job: the extras its commands install and the pytest invocations among them.
\<close>

lemma periodic_tests_check_manifest_commands:
  "extras_of (job_commands periodic_tests_check_manifest) = []"
  "pytest_modes (job_commands periodic_tests_check_manifest) = []"
  by (simp_all add: periodic_tests_check_manifest_def scan_simps numba_cache_commands)

lemma periodic_tests_pre_commit_commands:
  "extras_of (job_commands periodic_tests_pre_commit) = []"
  "pytest_modes (job_commands periodic_tests_pre_commit) = []"
  by (simp_all add: periodic_tests_pre_commit_def scan_simps numba_cache_commands)

lemma periodic_tests_run_notebook_examples_commands:
  "extras_of (job_commands periodic_tests_run_notebook_examples) = [''all_extras'', ''binder'', ''dev'']"
  "pytest_modes (job_commands periodic_tests_run_notebook_examples) = []"
  by (simp_all add: periodic_tests_run_notebook_examples_def scan_simps numba_cache_commands)

lemma periodic_tests_test_core_imports_commands:
  "extras_of (job_commands periodic_tests_test_core_imports) = []"
  "pytest_modes (job_commands periodic_tests_test_core_imports) = []"
  by (simp_all add: periodic_tests_test_core_imports_def scan_simps numba_cache_commands)

lemma periodic_tests_test_no_soft_deps_commands:
  "extras_of (job_commands periodic_tests_test_no_soft_deps) = [''dev'']"
  "pytest_modes (job_commands periodic_tests_test_no_soft_deps) = [(True, Some ''logical'', None)]"
  by (simp_all add: periodic_tests_test_no_soft_deps_def scan_simps numba_cache_commands)

lemma periodic_tests_pytest_commands:
  "extras_of (job_commands periodic_tests_pytest) = [''all_extras'', ''dev'']"
  "pytest_modes (job_commands periodic_tests_pytest) = [(True, Some ''logical'', None)]"
  by (simp_all add: periodic_tests_pytest_def scan_simps numba_cache_commands)

lemma periodic_tests_doctests_commands:
  "extras_of (job_commands periodic_tests_doctests) = [''all_extras'', ''dev'']"
  "pytest_modes (job_commands periodic_tests_doctests) = [(True, Some ''logical'', None)]"
  by (simp_all add: periodic_tests_doctests_def scan_simps numba_cache_commands)

lemma periodic_tests_multithreaded_estimators_commands:
  "extras_of (job_commands periodic_tests_multithreaded_estimators) = [''all_extras'', ''dev'']"
  "pytest_modes (job_commands periodic_tests_multithreaded_estimators) = [(False, None, Some ''true'')]"
  by (simp_all add: periodic_tests_multithreaded_estimators_def scan_simps numba_cache_commands)

lemma periodic_tests_codecov_commands:
  "extras_of (job_commands periodic_tests_codecov) = [''all_extras'', ''unstable_extras'', ''dev'']"
  "pytest_modes (job_commands periodic_tests_codecov) = [(True, Some ''logical'', None)]"
  by (simp_all add: periodic_tests_codecov_def scan_simps numba_cache_commands)

lemma update_contributors_generate_markdown_and_commit_commands:
  "extras_of (job_commands update_contributors_generate_markdown_and_commit) = []"
  "pytest_modes (job_commands update_contributors_generate_markdown_and_commit) = []"
  by (simp_all add: update_contributors_generate_markdown_and_commit_def scan_simps numba_cache_commands)

lemma pr_pytest_test_no_soft_deps_commands:
  "extras_of (job_commands pr_pytest_test_no_soft_deps) = [''dev'']"
  "pytest_modes (job_commands pr_pytest_test_no_soft_deps) = [(True, Some ''logical'', None)]"
  by (simp_all add: pr_pytest_test_no_soft_deps_def scan_simps numba_cache_commands)

lemma pr_pytest_pytest_commands:
  "extras_of (job_commands pr_pytest_pytest) = [''all_extras'', ''dev'']"
  "pytest_modes (job_commands pr_pytest_pytest) = [(True, Some ''logical'', None)]"
  by (simp_all add: pr_pytest_pytest_def scan_simps numba_cache_commands)

lemma pr_pytest_doctests_commands:
  "extras_of (job_commands pr_pytest_doctests) = [''all_extras'', ''dev'']"
  "pytest_modes (job_commands pr_pytest_doctests) = [(True, Some ''logical'', None)]"
  by (simp_all add: pr_pytest_doctests_def scan_simps numba_cache_commands)

lemma pr_pytest_multithreaded_estimators_commands:
  "extras_of (job_commands pr_pytest_multithreaded_estimators) = [''all_extras'', ''dev'']"
  "pytest_modes (job_commands pr_pytest_multithreaded_estimators) = [(False, None, Some ''true'')]"
  by (simp_all add: pr_pytest_multithreaded_estimators_def scan_simps numba_cache_commands)

lemma pr_pytest_codecov_commands:
  "extras_of (job_commands pr_pytest_codecov) = [''all_extras'', ''unstable_extras'', ''dev'']"
  "pytest_modes (job_commands pr_pytest_codecov) = [(True, Some ''logical'', None)]"
  by (simp_all add: pr_pytest_codecov_def scan_simps numba_cache_commands)

lemma issue_comment_posted_self_assign_commands:
  "extras_of (job_commands issue_comment_posted_self_assign) = []"
  "pytest_modes (job_commands issue_comment_posted_self_assign) = []"
  by (simp_all add: issue_comment_posted_self_assign_def scan_simps numba_cache_commands)

lemma pr_labelled_ai_pull_request_commands:
  "extras_of (job_commands pr_labelled_ai_pull_request) = []"
  "pytest_modes (job_commands pr_labelled_ai_pull_request) = []"
  by (simp_all add: pr_labelled_ai_pull_request_def scan_simps numba_cache_commands)

lemma issue_assigned_remove_good_first_issue_commands:
  "extras_of (job_commands issue_assigned_remove_good_first_issue) = []"
  "pytest_modes (job_commands issue_assigned_remove_good_first_issue) = []"
  by (simp_all add: issue_assigned_remove_good_first_issue_def scan_simps numba_cache_commands)

lemma release_check_manifest_commands:
  "extras_of (job_commands release_check_manifest) = []"
  "pytest_modes (job_commands release_check_manifest) = []"
  by (simp_all add: release_check_manifest_def scan_simps numba_cache_commands)

lemma release_build_project_commands:
  "extras_of (job_commands release_build_project) = []"
  "pytest_modes (job_commands release_build_project) = []"
  by (simp_all add: release_build_project_def scan_simps numba_cache_commands)

lemma release_test_wheels_commands:
  "extras_of (job_commands release_test_wheels) = [''all_extras'', ''dev'', ''all_extras'', ''dev'']"
  "pytest_modes (job_commands release_test_wheels) = [(True, Some ''logical'', None)]"
  by (simp_all add: release_test_wheels_def scan_simps numba_cache_commands)

lemma release_upload_wheels_commands:
  "extras_of (job_commands release_upload_wheels) = []"
  "pytest_modes (job_commands release_upload_wheels) = []"
  by (simp_all add: release_upload_wheels_def scan_simps numba_cache_commands)

lemma pr_opened_labeler_commands:
  "extras_of (job_commands pr_opened_labeler) = []"
  "pytest_modes (job_commands pr_opened_labeler) = []"
  by (simp_all add: pr_opened_labeler_def scan_simps numba_cache_commands)

lemma weekly_maintenance_pre_commit_auto_update_commands:
  "extras_of (job_commands weekly_maintenance_pre_commit_auto_update) = []"
  "pytest_modes (job_commands weekly_maintenance_pre_commit_auto_update) = []"
  by (simp_all add: weekly_maintenance_pre_commit_auto_update_def scan_simps numba_cache_commands)

lemma weekly_maintenance_teams_table_auto_update_commands:
  "extras_of (job_commands weekly_maintenance_teams_table_auto_update) = []"
  "pytest_modes (job_commands weekly_maintenance_teams_table_auto_update) = []"
  by (simp_all add: weekly_maintenance_teams_table_auto_update_def scan_simps numba_cache_commands)

lemma weekly_maintenance_github_security_scorecard_commands:
  "extras_of (job_commands weekly_maintenance_github_security_scorecard) = []"
  "pytest_modes (job_commands weekly_maintenance_github_security_scorecard) = []"
  by (simp_all add: weekly_maintenance_github_security_scorecard_def scan_simps numba_cache_commands)

lemma weekly_maintenance_stale_branches_commands:
  "extras_of (job_commands weekly_maintenance_stale_branches) = []"
  "pytest_modes (job_commands weekly_maintenance_stale_branches) = []"
  by (simp_all add: weekly_maintenance_stale_branches_def scan_simps numba_cache_commands)

lemma pr_typecheck_typecheck_commands:
  "extras_of (job_commands pr_typecheck_typecheck) = [''all_extras'', ''unstable_extras'', ''dev'']"
  "pytest_modes (job_commands pr_typecheck_typecheck) = []"
  by (simp_all add: pr_typecheck_typecheck_def scan_simps numba_cache_commands)

lemma issue_comment_edited_pr_welcome_edited_commands:
  "extras_of (job_commands issue_comment_edited_pr_welcome_edited) = []"
  "pytest_modes (job_commands issue_comment_edited_pr_welcome_edited) = []"
  by (simp_all add: issue_comment_edited_pr_welcome_edited_def scan_simps numba_cache_commands)

text \<open>The scans of the jobs, collected job by job.\<close>

lemmas wf_defs = periodic_tests_def update_contributors_def pr_pytest_def issue_comment_posted_def
  pr_labelled_def issue_assigned_def release_def pr_opened_def weekly_maintenance_def
  pr_typecheck_def issue_comment_edited_def

lemmas job_step_scans = periodic_tests_check_manifest_steps periodic_tests_pre_commit_steps
  periodic_tests_run_notebook_examples_steps periodic_tests_test_core_imports_steps
  periodic_tests_test_no_soft_deps_steps periodic_tests_pytest_steps
  periodic_tests_doctests_steps periodic_tests_multithreaded_estimators_steps
  periodic_tests_codecov_steps update_contributors_generate_markdown_and_commit_steps
  pr_pytest_test_no_soft_deps_steps pr_pytest_pytest_steps pr_pytest_doctests_steps
  pr_pytest_multithreaded_estimators_steps pr_pytest_codecov_steps
  issue_comment_posted_self_assign_steps pr_labelled_ai_pull_request_steps
  issue_assigned_remove_good_first_issue_steps release_check_manifest_steps
  release_build_project_steps release_test_wheels_steps release_upload_wheels_steps
  pr_opened_labeler_steps weekly_maintenance_pre_commit_auto_update_steps
  weekly_maintenance_teams_table_auto_update_steps
  weekly_maintenance_github_security_scorecard_steps
  weekly_maintenance_stale_branches_steps pr_typecheck_typecheck_steps
  issue_comment_edited_pr_welcome_edited_steps

lemmas job_command_scans = periodic_tests_check_manifest_commands periodic_tests_pre_commit_commands
  periodic_tests_run_notebook_examples_commands
  periodic_tests_test_core_imports_commands periodic_tests_test_no_soft_deps_commands
  periodic_tests_pytest_commands periodic_tests_doctests_commands
  periodic_tests_multithreaded_estimators_commands periodic_tests_codecov_commands
  update_contributors_generate_markdown_and_commit_commands
  pr_pytest_test_no_soft_deps_commands pr_pytest_pytest_commands
  pr_pytest_doctests_commands pr_pytest_multithreaded_estimators_commands
  pr_pytest_codecov_commands issue_comment_posted_self_assign_commands
  pr_labelled_ai_pull_request_commands issue_assigned_remove_good_first_issue_commands
  release_check_manifest_commands release_build_project_commands
  release_test_wheels_commands release_upload_wheels_commands
  pr_opened_labeler_commands weekly_maintenance_pre_commit_auto_update_commands
  weekly_maintenance_teams_table_auto_update_commands
  weekly_maintenance_github_security_scorecard_commands
  weekly_maintenance_stale_branches_commands pr_typecheck_typecheck_commands
  issue_comment_edited_pr_welcome_edited_commands

lemma all_jobs_list:
  "all_jobs =
     [periodic_tests_check_manifest, periodic_tests_pre_commit,
      periodic_tests_run_notebook_examples, periodic_tests_test_core_imports,
      periodic_tests_test_no_soft_deps, periodic_tests_pytest,
      periodic_tests_doctests, periodic_tests_multithreaded_estimators,
      periodic_tests_codecov, update_contributors_generate_markdown_and_commit,
      pr_pytest_test_no_soft_deps, pr_pytest_pytest, pr_pytest_doctests,
      pr_pytest_multithreaded_estimators, pr_pytest_codecov,
      issue_comment_posted_self_assign, pr_labelled_ai_pull_request,
      issue_assigned_remove_good_first_issue, release_check_manifest,
      release_build_project, release_test_wheels, release_upload_wheels,
      pr_opened_labeler, weekly_maintenance_pre_commit_auto_update,
      weekly_maintenance_teams_table_auto_update,
      weekly_maintenance_github_security_scorecard,
      weekly_maintenance_stale_branches, pr_typecheck_typecheck,
      issue_comment_edited_pr_welcome_edited]"
  by (simp add: all_jobs_def all_workflows_def wf_defs)

lemma has_matrix_fail_fast: "has_matrix j = (fail_fast_of j \<noteq> None)"
  by (simp add: has_matrix_def fail_fast_of_def)

lemma skipped_after_failure:
  "list_all (\<lambda>st. \<not> step_enabled lk False st) (filter (\<lambda>st. \<not> status_override st) sts)"
  by (induction sts) (auto simp: step_enabled_def status_override_def split: option.splits)

subsection \<open>One run in progress per group\<close>

text \<open>
  Starting and finishing runs keeps at most one run in progress in every group.
\<close>

lemma running_append: "running g (xs @ ys) = running g xs @ running g ys"
  by (simp add: running_def)

lemma running_cancel_group_same: "running g (map (cancel_group g) rs) = []"
  by (induction rs) (auto simp: running_def cancel_group_def set_status_def)

lemma running_cancel_group_other:
  "g' \<noteq> g \<Longrightarrow> length (running g' (map (cancel_group g) rs)) = length (running g' rs)"
  by (induction rs) (auto simp: running_def cancel_group_def set_status_def)

lemma running_cancel_group_le:
  "length (running g' (map (cancel_group g) rs)) \<le> length (running g' rs)"
  by (cases "g' = g") (simp_all add: running_cancel_group_same running_cancel_group_other)

lemma running_cancel_queued:
  "length (running g' (map (cancel_queued g) rs)) = length (running g' rs)"
  by (induction rs) (auto simp: running_def cancel_queued_def set_status_def)

lemma start_run_single:
  assumes "length (running g rs) \<le> 1"
  shows "length (running g (start_run lk fl rs)) \<le> 1"
proof (cases "wf_concurrency fl")
  case None
  with assms show ?thesis
    by (simp add: start_run_def running_append) (simp add: running_def)
next
  case (Some c)
  let ?h = "render lk (cc_group c)"
  show ?thesis
  proof (cases "cancel_in_progress c")
    case True
    have eq: "start_run lk fl rs = map (cancel_group ?h) rs @ [WfRun (wf_name fl) (Some ?h) InProgress]"
      using Some True by (simp add: start_run_def Let_def)
    show ?thesis
    proof (cases "g = ?h")
      case True
      then show ?thesis
        unfolding eq running_append by (simp add: running_cancel_group_same) (simp add: running_def)
    next
      case False
      then have "running g [WfRun (wf_name fl) (Some ?h) InProgress] = []"
        by (auto simp: running_def)
      with False assms show ?thesis
        unfolding eq running_append by (simp add: running_cancel_group_other)
    qed
  next
    case False
    show ?thesis
    proof (cases "running ?h rs = []")
      case True
      have eq: "start_run lk fl rs = rs @ [WfRun (wf_name fl) (Some ?h) InProgress]"
        using Some False True by (simp add: start_run_def Let_def)
      show ?thesis
      proof (cases "g = ?h")
        case True
        with \<open>running ?h rs = []\<close> show ?thesis
          unfolding eq running_append by (simp add: running_def)
      next
        case False
        then have "running g [WfRun (wf_name fl) (Some ?h) InProgress] = []"
          by (auto simp: running_def)
        with assms show ?thesis unfolding eq running_append by simp
      qed
    next
      case nonempty: False
      have eq: "start_run lk fl rs = map (cancel_queued ?h) rs @ [WfRun (wf_name fl) (Some ?h) Queued]"
        using Some False nonempty by (simp add: start_run_def Let_def)
      have "running g [WfRun (wf_name fl) (Some ?h) Queued] = []"
        by (simp add: running_def)
      with assms show ?thesis
        unfolding eq running_append by (simp add: running_cancel_queued)
    qed
  qed
qed

lemma running_promote_other:
  "g' \<noteq> g \<Longrightarrow> running g' (promote g rs) = running g' rs"
  by (induction rs) (auto simp: running_def set_status_def)

lemma running_promote_same:
  "length (running g (promote g rs)) \<le> Suc (length (running g rs))"
  by (induction rs) (auto simp: running_def set_status_def)

lemma running_complete:
  assumes "i < length rs" and "run_status (rs ! i) = InProgress"
  shows "length (running g (rs[i := set_status Completed (rs ! i)]))
           = length (running g rs) - (if run_group (rs ! i) = Some g then 1 else 0)"
proof -
  have a: "rs = take i rs @ rs ! i # drop (Suc i) rs"
    using assms(1) by (rule id_take_nth_drop)
  have b: "rs[i := set_status Completed (rs ! i)]
             = take i rs @ set_status Completed (rs ! i) # drop (Suc i) rs"
    using assms(1) by (rule upd_conv_take_nth_drop)
  have c: "running g (rs[i := set_status Completed (rs ! i)])
             = running g (take i rs) @ running g (drop (Suc i) rs)"
    unfolding b by (simp add: running_def set_status_def)
  have d: "length (running g rs)
             = length (running g (take i rs)) + (if run_group (rs ! i) = Some g then 1 else 0)
               + length (running g (drop (Suc i) rs))"
    by (subst a) (simp add: running_def assms(2))
  show ?thesis unfolding c d by simp
qed

lemma finish_run_single:
  assumes "length (running g rs) \<le> 1"
  shows "length (running g (finish_run i rs)) \<le> 1"
proof (cases "i < length rs \<and> run_status (rs ! i) = InProgress")
  case False
  with assms show ?thesis by (auto simp: finish_run_def)
next
  case True
  then have i: "i < length rs" and st: "run_status (rs ! i) = InProgress" by simp_all
  let ?rs' = "rs[i := set_status Completed (rs ! i)]"
  note rc = running_complete [OF i st, of g]
  show ?thesis
  proof (cases "run_group (rs ! i)")
    case None
    with True assms rc show ?thesis by (simp add: finish_run_def Let_def)
  next
    case (Some h)
    have eq: "finish_run i rs = promote h ?rs'"
      using True Some by (simp add: finish_run_def Let_def)
    show ?thesis
    proof (cases "g = h")
      case True
      with Some rc assms have "length (running g ?rs') = 0" by simp
      with running_promote_same [of g ?rs'] True show ?thesis unfolding eq by simp
    next
      case False
      with Some rc assms show ?thesis unfolding eq by (simp add: running_promote_other)
    qed
  qed
qed

lemma foldl_single:
  "length (running g rs) \<le> 1 \<Longrightarrow> length (running g (foldl apply_event rs evs)) \<le> 1"
proof (induction evs arbitrary: rs)
  case Nil
  then show ?case by simp
next
  case (Cons e evs)
  have "length (running g (apply_event rs e)) \<le> 1"
    using Cons.prems
    by (cases e) (simp_all add: start_run_single finish_run_single del: One_nat_def)
  then show ?case using Cons.IH by simp
qed

lemma run_events_single: "length (running g (run_events evs)) \<le> 1"
  unfolding run_events_def by (rule foldl_single) (simp add: running_def)

section \<open>Claims about the configuration as a whole\<close>

text \<open>
  Claim C3, amended.  Every step that calls \<^verbatim>\<open>nick-fields/retry\<close>, in the workflows
  and in the composite actions, sets \<open>max_attempts\<close> to 3 and \<open>timeout_minutes\<close> to 30;
  there are fourteen.  The retry wrapper is not all there is for a failure: the last two
  steps of the job \<open>pre-commit-auto-update\<close> carry the condition \<open>always()\<close> and run
  whatever the job's status, every other step is skipped once its job has failed, and
  the three matrix strategies set \<open>fail-fast\<close> to false.
\<close>

theorem retry_limits_and_failure_handling:
  "map retry_3_30 (filter is_retry all_steps) = replicate 14 True
   \<and> filter status_override all_steps
       = drop 3 (job_steps weekly_maintenance_pre_commit_auto_update)
   \<and> map step_if (filter status_override all_steps) = [Some EAlways, Some EAlways]
   \<and> list_all (step_enabled lk False) (filter status_override all_steps)
   \<and> list_all (\<lambda>st. \<not> step_enabled lk False st)
         (filter (\<lambda>st. \<not> status_override st) all_steps)
   \<and> map fail_fast_of (filter has_matrix all_jobs) = [Some False, Some False, Some False]"
proof -
  have steps: "all_steps = concat (map job_steps all_jobs) @ concat (map act_steps all_actions)"
    by (simp add: all_steps_def)
  have r: "map retry_3_30 (filter is_retry all_steps) = replicate 14 True"
    unfolding steps all_jobs_list
    by (simp add: all_actions_def job_step_scans numba_cache_steps cpu_all_extras_steps
        eval_nat_numeral)
  have o: "filter status_override all_steps
             = drop 3 (job_steps weekly_maintenance_pre_commit_auto_update)"
    unfolding steps all_jobs_list
    by (simp add: all_actions_def job_step_scans numba_cache_steps cpu_all_extras_steps)
  have c: "map step_if (drop 3 (job_steps weekly_maintenance_pre_commit_auto_update))
             = [Some EAlways, Some EAlways]"
    by (simp add: weekly_maintenance_pre_commit_auto_update_def)
  have e: "list_all (step_enabled lk False)
             (drop 3 (job_steps weekly_maintenance_pre_commit_auto_update))"
    by (simp add: weekly_maintenance_pre_commit_auto_update_def step_enabled_def)
  have f: "map fail_fast_of (filter has_matrix all_jobs) = [Some False, Some False, Some False]"
    unfolding all_jobs_list by (simp add: has_matrix_fail_fast job_step_scans)
  show ?thesis
    using r c e f skipped_after_failure [of lk all_steps] unfolding o by simp
qed

text \<open>
  Claim C3 as the specification words it makes the retry wrapper the only answer to a
  failure.  In a run of the job \<open>pre-commit-auto-update\<close> whose third step fails, a
  job without any retry step, the two steps under \<open>always()\<close> still run.
\<close>

theorem always_steps_run_after_failure_counterexample:
  "filter is_retry (job_steps weekly_maintenance_pre_commit_auto_update) = []
   \<and> labels_of (run_job failing_autoupdate_world []
        weekly_maintenance_pre_commit_auto_update start_state)
     = [''actions/checkout@v4'', ''actions/setup-python@v5'',
        ''browniebroke/pre-commit-autoupdate-action@v1.0.0'',
        ''actions/create-github-app-token@v2'', ''peter-evans/create-pull-request@v7'']
   \<and> \<not> ok_of (run_job failing_autoupdate_world []
        weekly_maintenance_pre_commit_auto_update start_state)"
  by code_simp

text \<open>
  Claim C4.  The extras named in the \<open>pip install\<close> commands of the workflows and of
  the composite actions are \<open>all_extras\<close>, \<open>dev\<close>, \<open>unstable_extras\<close> and
  \<open>binder\<close>, and no other.
\<close>

theorem install_extras_known:
  "set (extras_of all_commands) = {''all_extras'', ''dev'', ''unstable_extras'', ''binder''}"
proof -
  have "extras_of all_commands =
          [''all_extras'', ''binder'', ''dev'', ''dev'', ''all_extras'', ''dev'',
           ''all_extras'', ''dev'', ''all_extras'', ''dev'',
           ''all_extras'', ''unstable_extras'', ''dev'', ''dev'',
           ''all_extras'', ''dev'', ''all_extras'', ''dev'', ''all_extras'', ''dev'',
           ''all_extras'', ''unstable_extras'', ''dev'',
           ''all_extras'', ''dev'', ''all_extras'', ''dev'',
           ''all_extras'', ''unstable_extras'', ''dev'', ''all_extras'']"
    unfolding all_commands_def all_jobs_list
    by (simp add: all_actions_def extras_of_simps job_command_scans numba_commands_any
        numba_cache_commands cpu_all_extras_commands)
  then show ?thesis by auto
qed

text \<open>
  Claim C6, amended.  The workflows hold eleven pytest invocations.  Nine begin with
  \<^verbatim>\<open>python -m pytest -n logical\<close>; the two of the \<open>multithreaded-estimators\<close>
  jobs pass no \<^verbatim>\<open>-n\<close> and pass \<^verbatim>\<open>--enablethreading true\<close>.  Six workflows
  declare a concurrency group, and three jobs run as a matrix.
\<close>

theorem pytest_invocations_and_groups:
  "pytest_modes all_commands =
     [(True, Some ''logical'', None), (True, Some ''logical'', None),
      (True, Some ''logical'', None), (False, None, Some ''true''),
      (True, Some ''logical'', None), (True, Some ''logical'', None),
      (True, Some ''logical'', None), (True, Some ''logical'', None),
      (False, None, Some ''true''), (True, Some ''logical'', None),
      (True, Some ''logical'', None)]
   \<and> map wf_name (filter has_concurrency all_workflows) =
       [''Periodic tests'', ''PR pytest'', ''Pull request labelled'', ''Issue assigned'',
        ''PR typecheck'', ''Issue comment edited'']
   \<and> map job_id (filter has_matrix all_jobs) = [''pytest'', ''pytest'', ''test-wheels'']"
proof -
  have p: "pytest_modes all_commands =
     [(True, Some ''logical'', None), (True, Some ''logical'', None),
      (True, Some ''logical'', None), (False, None, Some ''true''),
      (True, Some ''logical'', None), (True, Some ''logical'', None),
      (True, Some ''logical'', None), (True, Some ''logical'', None),
      (False, None, Some ''true''), (True, Some ''logical'', None),
      (True, Some ''logical'', None)]"
    unfolding all_commands_def all_jobs_list
    by (simp add: all_actions_def pytest_modes_simps job_command_scans numba_commands_any
        numba_cache_commands cpu_all_extras_commands)
  have g: "map wf_name (filter has_concurrency all_workflows) =
       [''Periodic tests'', ''PR pytest'', ''Pull request labelled'', ''Issue assigned'',
        ''PR typecheck'', ''Issue comment edited'']"
    by (simp add: all_workflows_def wf_defs has_concurrency_def)
  have m: "map job_id (filter has_matrix all_jobs) = [''pytest'', ''pytest'', ''test-wheels'']"
    unfolding all_jobs_list by (simp add: has_matrix_fail_fast job_step_scans)
  show ?thesis using p g m by simp
qed

text \<open>
  Claim C6 as the specification words it has every test run in parallel by
  \<^verbatim>\<open>-n logical\<close> and no other mechanism.  The test command of the job
  \<open>multithreaded-estimators\<close> of the periodic tests is a pytest invocation without
  \<^verbatim>\<open>-n\<close> that enables threading.
\<close>

theorem multithreaded_pytest_counterexample:
  \<open>last (job_commands periodic_tests_multithreaded_estimators)
     = ''python -m pytest aeon/testing/tests/ --enablethreading true -k "check_estimator_multithreading"''
   \<and> pytest_modes (job_commands periodic_tests_multithreaded_estimators)
       = [(False, None, Some ''true'')]\<close>
proof -
  have \<open>last (job_commands periodic_tests_multithreaded_estimators)
     = ''python -m pytest aeon/testing/tests/ --enablethreading true -k "check_estimator_multithreading"''\<close>
    by (simp add: periodic_tests_multithreaded_estimators_def job_commands_def
        step_commands_run step_commands_numba step_commands_uses local_actions_def render_def)
  then show ?thesis
    by (simp add: periodic_tests_multithreaded_estimators_commands)
qed

text \<open>
  Claim C10.  Every concurrency block of the workflows sets \<open>cancel-in-progress\<close> to
  true.  Whatever runs start and finish, no group ever has more than one run in
  progress; and when a run of one of these workflows starts, the runs of its group that
  were in progress or queued are cancelled, so that the new run is the only one of the
  group in progress.
\<close>

theorem concurrency_groups_single_run:
  "list_all cancels (filter has_concurrency all_workflows)
   \<and> length (running g (run_events evs)) \<le> 1
   \<and> list_all
        (\<lambda>fl. start_run lk fl rs
                = map (cancel_group (the_group lk fl)) rs
                  @ [WfRun (wf_name fl) (Some (the_group lk fl)) InProgress])
        (filter has_concurrency all_workflows)
   \<and> list_all
        (\<lambda>fl. running (the_group lk fl) (start_run lk fl rs)
                = [WfRun (wf_name fl) (Some (the_group lk fl)) InProgress])
        (filter has_concurrency all_workflows)"
proof -
  have c: "list_all cancels (filter has_concurrency all_workflows)"
    by (simp add: all_workflows_def wf_defs has_concurrency_def cancels_def)
  have s: "start_run lk fl rs
             = map (cancel_group (the_group lk fl)) rs
               @ [WfRun (wf_name fl) (Some (the_group lk fl)) InProgress]"
    if "cancels fl" for fl
    using that
    by (cases "wf_concurrency fl") (simp_all add: start_run_def the_group_def cancels_def Let_def)
  have r: "running (the_group lk fl) (start_run lk fl rs)
             = [WfRun (wf_name fl) (Some (the_group lk fl)) InProgress]"
    if "cancels fl" for fl
    unfolding s [OF that] running_append
    by (simp add: running_cancel_group_same) (simp add: running_def)
  have i: "length (running g (run_events evs)) \<le> 1"
    by (rule run_events_single)
  have s': "list_all
        (\<lambda>fl. start_run lk fl rs
                = map (cancel_group (the_group lk fl)) rs
                  @ [WfRun (wf_name fl) (Some (the_group lk fl)) InProgress])
        (filter has_concurrency all_workflows)"
    using c s by (simp add: list_all_iff)
  have r': "list_all
        (\<lambda>fl. running (the_group lk fl) (start_run lk fl rs)
                = [WfRun (wf_name fl) (Some (the_group lk fl)) InProgress])
        (filter has_concurrency all_workflows)"
    using c r by (simp add: list_all_iff)
  from c i s' r' show ?thesis by (intro conjI)
qed

end
